theory Spec2Isabelle
  imports Complex_Main "HOL-Library.Sublist"
begin

section \<open>PDF knowledge assistant: configuration, embedding adapter, setup routine\<close>

text \<open>
  The script (\<^verbatim>\<open>assistant.py\<close>, \<^verbatim>\<open>config.py\<close>) is glue around external libraries:
  pydantic, python-dotenv, sentence-transformers, SQLAlchemy and the phi assistant
  framework. The model keeps every statement of the script and takes the behaviour of
  each library call as a parameter (the record \<open>world\<close> below): a call either returns a
  value or raises, and its answer may depend on everything that happened before it.
  What the script does to the outside (a library call, a log line) is appended to a
  trace of events, the oldest first.
\<close>

subsection \<open>Exceptions and outcomes\<close>

text \<open>
  Python exceptions, by the only distinctions the script's \<^verbatim>\<open>except\<close> clauses make:
  \<^verbatim>\<open>SQLAlchemyError\<close> (with its subclasses), \<^verbatim>\<open>ValueError\<close>, any other subclass of
  \<^verbatim>\<open>Exception\<close>, and a \<^verbatim>\<open>BaseException\<close> that is not an \<^verbatim>\<open>Exception\<close>
  (\<^verbatim>\<open>KeyboardInterrupt\<close>, \<^verbatim>\<open>GeneratorExit\<close>). The string is \<^verbatim>\<open>str(e)\<close>.
\<close>

datatype exn_class = SQLAlchemyError | ValueError | OtherException | NonException

datatype exn = Exn exn_class string

fun is_SQLAlchemyError :: "exn \<Rightarrow> bool" where
  "is_SQLAlchemyError (Exn c msg) = (c = SQLAlchemyError)"

fun is_Exception :: "exn \<Rightarrow> bool" where
  "is_Exception (Exn c msg) = (c \<noteq> NonException)"

fun str :: "exn \<Rightarrow> string" where
  "str (Exn c msg) = msg"

text \<open>
  How a function of the script ends: it returns a value, an exception leaves it, or
  \<^verbatim>\<open>sys.exit(code)\<close> was called in it (the \<^verbatim>\<open>SystemExit\<close> this raises is caught nowhere in
  the script, so the process ends with that status).
\<close>

datatype 'a outcome = Return 'a | Raise exn | Exit int

subsection \<open>Configuration\<close>

record app_config =
  db_url :: string
  collection_name :: string
  embedder_model :: string
  embedder_dim :: int
  table_name :: string

text \<open>
  \<^verbatim>\<open>AppConfig\<close> is a pydantic \<^verbatim>\<open>BaseModel\<close>: a field takes the keyword argument given to
  the constructor, and its declared default when none is given. Nothing else reaches it.
\<close>

definition AppConfig ::
  "string option \<Rightarrow> string option \<Rightarrow> string option \<Rightarrow> int option \<Rightarrow> string option \<Rightarrow> app_config" where
  "AppConfig db_url_arg collection_name_arg embedder_model_arg embedder_dim_arg table_name_arg =
     \<lparr> db_url = (case db_url_arg of None \<Rightarrow> ''postgresql+psycopg://ai:ai@localhost:5532/ai'' | Some v \<Rightarrow> v),
       collection_name = (case collection_name_arg of None \<Rightarrow> ''science_docs'' | Some v \<Rightarrow> v),
       embedder_model = (case embedder_model_arg of None \<Rightarrow> ''all-MiniLM-L6-v2'' | Some v \<Rightarrow> v),
       embedder_dim = (case embedder_dim_arg of None \<Rightarrow> 384 | Some v \<Rightarrow> v),
       table_name = (case table_name_arg of None \<Rightarrow> ''science_assistant'' | Some v \<Rightarrow> v) \<rparr>"

text \<open>
  \<^verbatim>\<open>load_dotenv()\<close> copies the entries of the \<^verbatim>\<open>.env\<close> file into the process environment,
  keeping a variable that is already set (\<^verbatim>\<open>override=False\<close>).
\<close>

definition load_dotenv :: "(string \<rightharpoonup> string) \<Rightarrow> (string \<rightharpoonup> string) \<Rightarrow> (string \<rightharpoonup> string)" where
  "load_dotenv environ dotenv_file = dotenv_file ++ environ"

text \<open>
  The module level of \<^verbatim>\<open>assistant.py\<close>: \<^verbatim>\<open>load_dotenv()\<close> runs, then
  \<^verbatim>\<open>config = AppConfig()\<close> is built with no argument. The environment that
  \<^verbatim>\<open>load_dotenv\<close> produced is bound and never read.
\<close>

definition config :: "(string \<rightharpoonup> string) \<Rightarrow> (string \<rightharpoonup> string) \<Rightarrow> app_config" where
  "config environ dotenv_file =
     (let environ' = load_dotenv environ dotenv_file
      in AppConfig None None None None None)"

text \<open>
  \<^verbatim>\<open>config.py\<close>: \<^verbatim>\<open>Settings\<close> is a pydantic \<^verbatim>\<open>BaseSettings\<close> with \<^verbatim>\<open>env_file = ".env"\<close>, as
  pydantic 1 has it. The process environment and the entries of the \<^verbatim>\<open>.env\<close> file are
  dictionaries, given here as lists of pairs in the dictionary's order (each name once).
  Names are compared case-insensitively: both dictionaries are rebuilt with lower-cased
  names, a later entry replacing an earlier one of the same lowered name, and a field is
  looked up under its own lower-cased name. A variable of the environment goes before an
  entry of the file, and the declared default is taken when neither is there.
\<close>

record settings =
  DB_URL :: string
  EMBEDDER_MODEL :: string
  EMBEDDING_DIM :: int
  COLLECTION_NAME :: string
  TABLE_NAME :: string

text \<open>
  \<^verbatim>\<open>str.lower\<close> on the letters that matter here: an upper-case ASCII letter becomes its
  lower-case one and every other byte stays (no character outside ASCII lowers to a
  letter of the five field names).
\<close>

definition lower_char :: "char \<Rightarrow> char" where
  "lower_char c =
     (case map_of (zip ''ABCDEFGHIJKLMNOPQRSTUVWXYZ'' ''abcdefghijklmnopqrstuvwxyz'') c of
        None \<Rightarrow> c
      | Some l \<Rightarrow> l)"

definition lower :: "string \<Rightarrow> string" where
  "lower s = map lower_char s"

text \<open>\<^verbatim>\<open>{k.lower(): v for k, v in vars.items()}\<close>: the last entry of a lowered name stays.\<close>

definition lowered :: "(string \<times> string) list \<Rightarrow> (string \<rightharpoonup> string)" where
  "lowered vars = map_of (rev (map (\<lambda>(k, v). (lower k, v)) vars))"

text \<open>
  \<^verbatim>\<open>{**dotenv_vars, **env_vars}.get(name.lower())\<close>: what the settings source finds for a
  field.
\<close>

definition env_value ::
  "(string \<times> string) list \<Rightarrow> (string \<times> string) list \<Rightarrow> string \<Rightarrow> string option" where
  "env_value environ dotenv_file name = (lowered dotenv_file ++ lowered environ) (lower name)"

text \<open>
  \<^verbatim>\<open>Settings()\<close>. The reading of an integer from the variable's text is pydantic's, taken
  as the parameter \<open>int_validator\<close>; a text it rejects makes the constructor raise a
  validation error (a \<^verbatim>\<open>ValueError\<close>).
\<close>

definition Settings ::
  "(string \<Rightarrow> int option) \<Rightarrow> (string \<times> string) list \<Rightarrow> (string \<times> string) list
     \<Rightarrow> exn + settings" where
  "Settings int_validator environ dotenv_file =
     (let src = env_value environ dotenv_file;
          dim = (case src ''EMBEDDING_DIM'' of
                   None \<Rightarrow> Some 384
                 | Some v \<Rightarrow> int_validator v)
      in case dim of
           None \<Rightarrow> Inl (Exn ValueError ''validation error for Settings'')
         | Some d \<Rightarrow>
             Inr \<lparr> DB_URL = (case src ''DB_URL'' of
                               None \<Rightarrow> ''postgresql+psycopg://ai:ai@localhost:5532/ai'' | Some v \<Rightarrow> v),
                   EMBEDDER_MODEL = (case src ''EMBEDDER_MODEL'' of
                               None \<Rightarrow> ''all-MiniLM-L6-v2'' | Some v \<Rightarrow> v),
                   EMBEDDING_DIM = d,
                   COLLECTION_NAME = (case src ''COLLECTION_NAME'' of
                               None \<Rightarrow> ''science_docs'' | Some v \<Rightarrow> v),
                   TABLE_NAME = (case src ''TABLE_NAME'' of
                               None \<Rightarrow> ''science_assistant'' | Some v \<Rightarrow> v) \<rparr>)"

text \<open>
  Importing the module \<^verbatim>\<open>config.py\<close>, which ends with \<^verbatim>\<open>settings = Settings()\<close>. Which pydantic is
  installed is not the repository's to say: with pydantic 1 the module builds its
  settings; with pydantic 2 its first line, \<^verbatim>\<open>from pydantic import BaseSettings\<close>, raises an
  import error (a subclass of \<^verbatim>\<open>Exception\<close>) and no settings exist.
\<close>

datatype pydantic_version = PydanticV1 | PydanticV2

definition config_py ::
  "pydantic_version \<Rightarrow> (string \<Rightarrow> int option) \<Rightarrow> (string \<times> string) list
     \<Rightarrow> (string \<times> string) list \<Rightarrow> exn + settings" where
  "config_py version int_validator environ dotenv_file =
     (case version of
        PydanticV1 \<Rightarrow> Settings int_validator environ dotenv_file
      | PydanticV2 \<Rightarrow>
          Inl (Exn OtherException
                 ''`BaseSettings` has been moved to the `pydantic-settings` package.''))"

subsection \<open>Objects of the external libraries\<close>

text \<open>
  A loaded sentence-transformer model is an opaque handle. The adapter \<^verbatim>\<open>HfEmbedder\<close>
  has the frozen field \<^verbatim>\<open>model_name\<close> and the private attribute \<^verbatim>\<open>_model\<close>
  (\<open>priv_model\<close> here, \<open>None\<close> until the model is loaded).
\<close>

datatype model_handle = ModelHandle nat

record hf_embedder =
  model_name :: string
  priv_model :: "model_handle option"

text \<open>\<^verbatim>\<open>HfEmbedder()\<close>: the default of \<^verbatim>\<open>model_name\<close> is \<^verbatim>\<open>config.embedder_model\<close>.\<close>

definition HfEmbedder :: "app_config \<Rightarrow> hf_embedder" where
  "HfEmbedder cfg = \<lparr> model_name = embedder_model cfg, priv_model = None \<rparr>"

text \<open>
  The other library objects are known to the script only by the arguments it
  constructs them with.
\<close>

datatype vector_db = PgVector2 string string hf_embedder int
  \<comment> \<open>collection, db_url, embedder, dim\<close>

datatype knowledge_base = PDFUrlKnowledgeBase "string list" vector_db
  \<comment> \<open>urls, vector_db\<close>

datatype storage = PgAssistantStorage string string
  \<comment> \<open>table_name, db_url\<close>

datatype assistant = Assistant "string option" string knowledge_base storage "string list" bool bool
  \<comment> \<open>run_id, user_id, knowledge_base, storage, tools, show_tool_calls, read_chat_history\<close>

text \<open>
  The usage dictionary returned with an embedding is a nested \<^verbatim>\<open>dict\<close>. The components of
  an embedding are passed through untouched by the script; they are taken as reals.
\<close>

datatype pyval = PStr string | PInt int | PDict "(string \<times> pyval) list"

subsection \<open>Events and the outside world\<close>

datatype level = INFO | ERROR

datatype event =
    Log level string
  | LoadModel string
  | Encode model_handle string
  | CreateEngine string
  | Connect
  | Execute string
  | Commit
  | Close
  | NewPgVector2 vector_db
  | NewKnowledgeBase knowledge_base
  | LoadKnowledgeBase knowledge_base bool
  | NewStorage storage
  | GetAllRunIds storage string
  | NewAssistant assistant
  | CliApp assistant bool

text \<open>
  The answer of each library call, given the trace so far and the call's arguments:
  \<open>Inl e\<close> when it raises \<open>e\<close>, \<open>Inr v\<close> when it returns \<open>v\<close>. \<open>ext_Assistant\<close> returns the
  \<^verbatim>\<open>run_id\<close> of the constructed assistant (the framework makes a fresh one when it is given
  \<^verbatim>\<open>None\<close>).
\<close>

record world =
  ext_SentenceTransformer :: "event list \<Rightarrow> string \<Rightarrow> exn + model_handle"
  ext_encode :: "event list \<Rightarrow> model_handle \<Rightarrow> string \<Rightarrow> exn + real list"
  ext_create_engine :: "event list \<Rightarrow> string \<Rightarrow> exn + unit"
  ext_connect :: "event list \<Rightarrow> exn + unit"
  ext_execute :: "event list \<Rightarrow> string \<Rightarrow> exn + unit"
  ext_commit :: "event list \<Rightarrow> exn + unit"
  ext_close :: "event list \<Rightarrow> exn + unit"
  ext_PgVector2 :: "event list \<Rightarrow> vector_db \<Rightarrow> exn + unit"
  ext_PDFUrlKnowledgeBase :: "event list \<Rightarrow> knowledge_base \<Rightarrow> exn + unit"
  ext_load :: "event list \<Rightarrow> knowledge_base \<Rightarrow> bool \<Rightarrow> exn + unit"
  ext_PgAssistantStorage :: "event list \<Rightarrow> storage \<Rightarrow> exn + unit"
  ext_get_all_run_ids :: "event list \<Rightarrow> storage \<Rightarrow> string \<Rightarrow> exn + string list"
  ext_Assistant :: "event list \<Rightarrow> assistant \<Rightarrow> exn + string"
  ext_cli_app :: "event list \<Rightarrow> assistant \<Rightarrow> bool \<Rightarrow> exn + unit"

subsection \<open>Formatting an integer in an f-string\<close>

definition digit_char :: "nat \<Rightarrow> char" where
  "digit_char d = ''0123456789'' ! d"

function str_nat :: "nat \<Rightarrow> string" where
  "str_nat n = (if n < 10 then [digit_char n] else str_nat (n div 10) @ [digit_char (n mod 10)])"
  by pat_completeness auto
termination
  by (relation "measure (\<lambda>n. n)") auto

declare str_nat.simps [simp del]

definition str_int :: "int \<Rightarrow> string" where
  "str_int i = (if i < 0 then CHR ''-'' # str_nat (nat (- i)) else str_nat (nat i))"

subsection \<open>The embedding adapter\<close>

text \<open>
  The property \<^verbatim>\<open>HfEmbedder.model\<close>. The result is the outcome, the adapter after the
  access and the trace after it.
\<close>

definition model ::
  "world \<Rightarrow> hf_embedder \<Rightarrow> event list \<Rightarrow> model_handle outcome \<times> hf_embedder \<times> event list" where
  "model w self t =
     (case priv_model self of
        None \<Rightarrow>
          (let t1 = t @ [Log INFO (''Loading embedding model: '' @ model_name self)]
           in case ext_SentenceTransformer w t1 (model_name self) of
                Inl e \<Rightarrow> (Raise e, self, t1 @ [LoadModel (model_name self)])
              | Inr m \<Rightarrow> (Return m, self\<lparr>priv_model := Some m\<rparr>, t1 @ [LoadModel (model_name self)]))
      | Some m \<Rightarrow> (Return m, self, t))"

text \<open>The body of the \<^verbatim>\<open>try\<close> in \<^verbatim>\<open>get_embedding_and_usage\<close>.\<close>

definition get_embedding_and_usage_try ::
  "app_config \<Rightarrow> world \<Rightarrow> hf_embedder \<Rightarrow> string \<Rightarrow> event list
     \<Rightarrow> (real list \<times> pyval) outcome \<times> hf_embedder \<times> event list" where
  "get_embedding_and_usage_try cfg w self text t =
     (case model w self t of
        (Raise e, self1, t1) \<Rightarrow> (Raise e, self1, t1)
      | (Exit c, self1, t1) \<Rightarrow> (Exit c, self1, t1)
      | (Return m, self1, t1) \<Rightarrow>
          (case ext_encode w t1 m text of
             Inl e \<Rightarrow> (Raise e, self1, t1 @ [Encode m text])
           | Inr embedding \<Rightarrow>
               (let t2 = t1 @ [Encode m text]
                in if int (length embedding) \<noteq> embedder_dim cfg
                   then (Raise (Exn ValueError ''Embedding dimension mismatch''), self1,
                         t2 @ [Log ERROR (''Embedding dimension mismatch: Expected ''
                                 @ str_int (embedder_dim cfg) @ '', got ''
                                 @ str_int (int (length embedding)))])
                   else (Return (embedding,
                           PDict [(''model'', PStr (model_name self1)),
                                  (''usage'', PDict [(''total_tokens'', PInt 0)])]),
                         self1, t2))))"

text \<open>
  \<^verbatim>\<open>get_embedding_and_usage\<close>: the \<^verbatim>\<open>except Exception\<close> clause logs and re-raises with a
  bare \<^verbatim>\<open>raise\<close>; an exception that is not an \<^verbatim>\<open>Exception\<close> passes it by.
\<close>

definition get_embedding_and_usage ::
  "app_config \<Rightarrow> world \<Rightarrow> hf_embedder \<Rightarrow> string \<Rightarrow> event list
     \<Rightarrow> (real list \<times> pyval) outcome \<times> hf_embedder \<times> event list" where
  "get_embedding_and_usage cfg w self text t =
     (case get_embedding_and_usage_try cfg w self text t of
        (Raise e, self1, t1) \<Rightarrow>
          (if is_Exception e
           then (Raise e, self1, t1 @ [Log ERROR (''Embedding generation failed: '' @ str e)])
           else (Raise e, self1, t1))
      | (Return v, self1, t1) \<Rightarrow> (Return v, self1, t1)
      | (Exit c, self1, t1) \<Rightarrow> (Exit c, self1, t1))"

subsection \<open>Sequencing, logging, exit, try and with\<close>

text \<open>A statement of the script takes the trace and gives its outcome and the new trace.\<close>

type_synonym 'a prog = "event list \<Rightarrow> 'a outcome \<times> event list"

definition bind_prog :: "'a prog \<Rightarrow> ('a \<Rightarrow> 'b prog) \<Rightarrow> 'b prog" where
  "bind_prog m f t =
     (case m t of
        (Return v, t1) \<Rightarrow> f v t1
      | (Raise e, t1) \<Rightarrow> (Raise e, t1)
      | (Exit c, t1) \<Rightarrow> (Exit c, t1))"

definition return_prog :: "'a \<Rightarrow> 'a prog" where
  "return_prog v t = (Return v, t)"

definition logger_info :: "string \<Rightarrow> unit prog" where
  "logger_info msg t = (Return (), t @ [Log INFO msg])"

definition logger_error :: "string \<Rightarrow> unit prog" where
  "logger_error msg t = (Return (), t @ [Log ERROR msg])"

definition sys_exit :: "int \<Rightarrow> 'a prog" where
  "sys_exit code t = (Exit code, t)"

text \<open>A library call: the world answers from the trace so far, and the call is recorded.\<close>

definition call :: "(event list \<Rightarrow> exn + 'a) \<Rightarrow> event \<Rightarrow> 'a prog" where
  "call answer ev t =
     (case answer t of
        Inl e \<Rightarrow> (Raise e, t @ [ev])
      | Inr v \<Rightarrow> (Return v, t @ [ev]))"

text \<open>\<^verbatim>\<open>try: body except C as e: handler\<close>, where \<open>catches\<close> says which exceptions are a \<^verbatim>\<open>C\<close>.\<close>

definition try_except :: "'a prog \<Rightarrow> (exn \<Rightarrow> bool) \<Rightarrow> (exn \<Rightarrow> 'a prog) \<Rightarrow> 'a prog" where
  "try_except body catches handler t =
     (case body t of
        (Raise e, t1) \<Rightarrow> (if catches e then handler e t1 else (Raise e, t1))
      | (Return v, t1) \<Rightarrow> (Return v, t1)
      | (Exit c, t1) \<Rightarrow> (Exit c, t1))"

text \<open>
  \<^verbatim>\<open>with engine.connect() as conn: body\<close>. When \<^verbatim>\<open>connect\<close> raises, the body does not run
  and there is nothing to close. Otherwise the connection is closed when the block is
  left, whether the body returned or raised; an exception of \<^verbatim>\<open>close\<close> itself replaces the
  body's outcome.
\<close>

definition with_connect :: "world \<Rightarrow> 'a prog \<Rightarrow> 'a prog" where
  "with_connect w body t =
     (case call (ext_connect w) Connect t of
        (Raise e, t1) \<Rightarrow> (Raise e, t1)
      | (Exit c, t1) \<Rightarrow> (Exit c, t1)
      | (Return conn, t1) \<Rightarrow>
          (case body t1 of
             (r, t2) \<Rightarrow>
               (case call (ext_close w) Close t2 of
                  (Raise e, t3) \<Rightarrow> (Raise e, t3)
                | (Exit c, t3) \<Rightarrow> (Exit c, t3)
                | (Return u, t3) \<Rightarrow> (r, t3))))"

subsection \<open>The setup functions\<close>

text \<open>The body of the \<^verbatim>\<open>try\<close> in \<^verbatim>\<open>setup_database\<close>.\<close>

definition setup_database_try :: "app_config \<Rightarrow> world \<Rightarrow> unit prog" where
  "setup_database_try cfg w =
     bind_prog (logger_info ''Initializing database connection'') (\<lambda>_.
     bind_prog (call (\<lambda>t. ext_create_engine w t (db_url cfg)) (CreateEngine (db_url cfg))) (\<lambda>engine.
     bind_prog (with_connect w
        (bind_prog (call (\<lambda>t. ext_execute w t ''CREATE EXTENSION IF NOT EXISTS vector'')
                         (Execute ''CREATE EXTENSION IF NOT EXISTS vector'')) (\<lambda>_.
         call (ext_commit w) Commit))) (\<lambda>_.
     logger_info ''Database extension setup completed'')))"

definition setup_database :: "app_config \<Rightarrow> world \<Rightarrow> unit prog" where
  "setup_database cfg w =
     try_except (setup_database_try cfg w) is_SQLAlchemyError
       (\<lambda>e. bind_prog (logger_error (''Database setup failed: '' @ str e)) (\<lambda>_. sys_exit 1))"

definition create_vector_db :: "app_config \<Rightarrow> world \<Rightarrow> vector_db prog" where
  "create_vector_db cfg w =
     (let vector_db = PgVector2 (collection_name cfg) (db_url cfg) (HfEmbedder cfg) (embedder_dim cfg)
      in bind_prog (call (\<lambda>t. ext_PgVector2 w t vector_db) (NewPgVector2 vector_db)) (\<lambda>_.
         return_prog vector_db))"

text \<open>The body of the \<^verbatim>\<open>try\<close> in \<^verbatim>\<open>create_knowledge_base\<close>.\<close>

definition create_knowledge_base_try :: "world \<Rightarrow> vector_db \<Rightarrow> knowledge_base prog" where
  "create_knowledge_base_try w vector_db =
     bind_prog (logger_info ''Creating knowledge base'') (\<lambda>_.
     (let knowledge_base = PDFUrlKnowledgeBase
            [''https://www.nobelprize.org/uploads/2024/10/advanced-chemistryprize2024.pdf'']
            vector_db
      in bind_prog (call (\<lambda>t. ext_PDFUrlKnowledgeBase w t knowledge_base)
                         (NewKnowledgeBase knowledge_base)) (\<lambda>_.
         bind_prog (logger_info ''Loading documents into vector database'') (\<lambda>_.
         bind_prog (call (\<lambda>t. ext_load w t knowledge_base False)
                         (LoadKnowledgeBase knowledge_base False)) (\<lambda>_.
         return_prog knowledge_base)))))"

definition create_knowledge_base :: "world \<Rightarrow> vector_db \<Rightarrow> knowledge_base prog" where
  "create_knowledge_base w vector_db =
     try_except (create_knowledge_base_try w vector_db) is_Exception
       (\<lambda>e. bind_prog (logger_error (''Knowledge base creation failed: '' @ str e)) (\<lambda>_. sys_exit 1))"

subsection \<open>The main workflow\<close>

text \<open>
  The session state of \<^verbatim>\<open>main\<close>: \<^verbatim>\<open>run_id\<close> starts as \<^verbatim>\<open>None\<close>; unless a new session is asked
  for, the storage is asked for the user's run ids and the first one, when there is
  one, is taken and logged.
\<close>

definition resolve_session :: "world \<Rightarrow> storage \<Rightarrow> bool \<Rightarrow> string \<Rightarrow> (string option) prog" where
  "resolve_session w storage new_session user_id =
     (if \<not> new_session
      then bind_prog (call (\<lambda>t. ext_get_all_run_ids w t storage user_id)
                           (GetAllRunIds storage user_id)) (\<lambda>existing_runs.
           (case existing_runs of
              [] \<Rightarrow> return_prog None
            | first_run # _ \<Rightarrow>
                bind_prog (logger_info (''Resuming existing session: '' @ first_run)) (\<lambda>_.
                return_prog (Some first_run))))
      else return_prog None)"

definition main :: "app_config \<Rightarrow> world \<Rightarrow> bool \<Rightarrow> string \<Rightarrow> unit prog" where
  "main cfg w new_session user_id =
     bind_prog (setup_database cfg w) (\<lambda>_.
     bind_prog (create_vector_db cfg w) (\<lambda>vector_db.
     bind_prog (create_knowledge_base w vector_db) (\<lambda>knowledge_base.
     (let storage = PgAssistantStorage (table_name cfg) (db_url cfg)
      in bind_prog (call (\<lambda>t. ext_PgAssistantStorage w t storage) (NewStorage storage)) (\<lambda>_.
         bind_prog (resolve_session w storage new_session user_id) (\<lambda>run_id.
         (let assistant = Assistant run_id user_id knowledge_base storage [] True True
          in bind_prog (call (\<lambda>t. ext_Assistant w t assistant) (NewAssistant assistant))
               (\<lambda>assistant_run_id.
             bind_prog (logger_info (''Starting assistant session: '' @ assistant_run_id)) (\<lambda>_.
             call (\<lambda>t. ext_cli_app w t assistant True) (CliApp assistant True))))))))))"

subsection \<open>Observing a trace\<close>

text \<open>The library calls of a trace, with the log lines left out.\<close>

fun is_log :: "event \<Rightarrow> bool" where
  "is_log (Log l msg) = True"
| "is_log ev = False"

definition calls :: "event list \<Rightarrow> event list" where
  "calls t = filter (\<lambda>ev. \<not> is_log ev) t"

text \<open>
  The setup step of \<^verbatim>\<open>main\<close> that a library call belongs to: the five database calls of
  \<^verbatim>\<open>setup_database\<close>, the construction in \<^verbatim>\<open>create_vector_db\<close>, the construction and the load
  in \<^verbatim>\<open>create_knowledge_base\<close>, the construction of the storage, the lookup of the run ids
  and the construction of the assistant with the \<^verbatim>\<open>run_id\<close> found, and the interactive loop.
  The adapter's own calls are made by none of the steps of \<^verbatim>\<open>main\<close> directly.
\<close>

datatype step =
  SetupDatabase | CreateVectorDb | CreateKnowledgeBase | CreateStorage | ResolveSession | RunCliApp

fun step_of :: "event \<Rightarrow> step option" where
  "step_of (CreateEngine url) = Some SetupDatabase"
| "step_of Connect = Some SetupDatabase"
| "step_of (Execute stmt) = Some SetupDatabase"
| "step_of Commit = Some SetupDatabase"
| "step_of Close = Some SetupDatabase"
| "step_of (NewPgVector2 v) = Some CreateVectorDb"
| "step_of (NewKnowledgeBase k) = Some CreateKnowledgeBase"
| "step_of (LoadKnowledgeBase k recreate) = Some CreateKnowledgeBase"
| "step_of (NewStorage s) = Some CreateStorage"
| "step_of (GetAllRunIds s user_id) = Some ResolveSession"
| "step_of (NewAssistant a) = Some ResolveSession"
| "step_of (CliApp a markdown) = Some RunCliApp"
| "step_of (Log l msg) = None"
| "step_of (LoadModel name) = None"
| "step_of (Encode m text) = None"

text \<open>The steps of a trace in the order they were entered, each named once per entry.\<close>

definition steps :: "event list \<Rightarrow> step list" where
  "steps t = remdups_adj (List.map_filter step_of t)"

subsection \<open>A sample world\<close>

text \<open>
  A world in which every library call succeeds: the model loads, an embedding has 384
  components, the database answers, and the storage holds two runs of the user.
\<close>

definition example_world :: world where
  "example_world =
     \<lparr> ext_SentenceTransformer = (\<lambda>t name. Inr (ModelHandle (length t))),
       ext_encode = (\<lambda>t m text. Inr (replicate 384 0)),
       ext_create_engine = (\<lambda>t url. Inr ()),
       ext_connect = (\<lambda>t. Inr ()),
       ext_execute = (\<lambda>t stmt. Inr ()),
       ext_commit = (\<lambda>t. Inr ()),
       ext_close = (\<lambda>t. Inr ()),
       ext_PgVector2 = (\<lambda>t v. Inr ()),
       ext_PDFUrlKnowledgeBase = (\<lambda>t k. Inr ()),
       ext_load = (\<lambda>t k recreate. Inr ()),
       ext_PgAssistantStorage = (\<lambda>t s. Inr ()),
       ext_get_all_run_ids = (\<lambda>t s user_id. Inr [''run-1'', ''run-2'']),
       ext_Assistant = (\<lambda>t a. Inr ''run-1''),
       ext_cli_app = (\<lambda>t a markdown. Inr ()) \<rparr>"

section \<open>Properties\<close>

subsection \<open>Auxiliary facts\<close>

lemmas cfg_defs = config_def AppConfig_def HfEmbedder_def

lemmas prog_defs = bind_prog_def return_prog_def logger_info_def logger_error_def
  sys_exit_def call_def try_except_def with_connect_def

lemma model_name_preserved:
  "model w self t = (r, self1, t1) \<Longrightarrow> model_name self1 = model_name self"
  by (auto simp: model_def Let_def split: option.splits sum.splits)

lemma model_never_exits: "model w self t \<noteq> (Exit c, self1, t1)"
  by (auto simp: model_def Let_def split: option.splits sum.splits)

lemmas setup_defs = setup_database_def setup_database_try_def create_vector_db_def
  create_knowledge_base_def create_knowledge_base_try_def resolve_session_def

lemma example_world_simps:
  "ext_SentenceTransformer example_world = (\<lambda>t name. Inr (ModelHandle (length t)))"
  "ext_encode example_world = (\<lambda>t m text. Inr (replicate 384 0))"
  "ext_create_engine example_world = (\<lambda>t url. Inr ())"
  "ext_connect example_world = (\<lambda>t. Inr ())"
  "ext_execute example_world = (\<lambda>t stmt. Inr ())"
  "ext_commit example_world = (\<lambda>t. Inr ())"
  "ext_close example_world = (\<lambda>t. Inr ())"
  "ext_PgVector2 example_world = (\<lambda>t v. Inr ())"
  "ext_PDFUrlKnowledgeBase example_world = (\<lambda>t k. Inr ())"
  "ext_load example_world = (\<lambda>t k recreate. Inr ())"
  "ext_PgAssistantStorage example_world = (\<lambda>t s. Inr ())"
  "ext_get_all_run_ids example_world = (\<lambda>t s user_id. Inr [''run-1'', ''run-2''])"
  "ext_Assistant example_world = (\<lambda>t a. Inr ''run-1'')"
  "ext_cli_app example_world = (\<lambda>t a markdown. Inr ())"
  by (simp_all add: example_world_def)

text \<open>The calls of a trace, and its steps, do not depend on its log lines.\<close>

lemma calls_append: "calls (xs @ ys) = calls xs @ calls ys"
  by (simp add: calls_def)

lemma set_calls: "set (calls t) = {ev \<in> set t. \<not> is_log ev}"
  by (simp add: calls_def)

lemma steps_calls: "steps (calls t) = steps t"
proof -
  have "List.map_filter step_of (calls t) = List.map_filter step_of t"
  proof (induction t)
    case Nil
    show ?case by (simp add: calls_def)
  next
    case (Cons ev t)
    then show ?case by (cases ev) (simp_all add: calls_def List.map_filter_simps)
  qed
  then show ?thesis by (simp add: steps_def)
qed

lemma setup_database_calls:
  "\<exists>r t'. setup_database cfg w t = (r, t') \<and>
     ((r = Return () \<and>
       calls t' = calls t @ [CreateEngine (db_url cfg), Connect,
                             Execute ''CREATE EXTENSION IF NOT EXISTS vector'', Commit, Close])
      \<or> ((\<forall>v. r \<noteq> Return v) \<and>
          (calls t' = calls t @ [CreateEngine (db_url cfg)]
           \<or> calls t' = calls t @ [CreateEngine (db_url cfg), Connect]
           \<or> calls t' = calls t @ [CreateEngine (db_url cfg), Connect,
                                    Execute ''CREATE EXTENSION IF NOT EXISTS vector'', Close]
           \<or> calls t' = calls t @ [CreateEngine (db_url cfg), Connect,
                                    Execute ''CREATE EXTENSION IF NOT EXISTS vector'', Commit, Close])))"
  by (simp add: setup_database_def setup_database_try_def prog_defs calls_def split: sum.splits)

lemma create_vector_db_calls:
  "\<exists>r. create_vector_db cfg w t =
          (r, t @ [NewPgVector2 (PgVector2 (collection_name cfg) (db_url cfg) (HfEmbedder cfg)
                                   (embedder_dim cfg))]) \<and>
       (r = Return (PgVector2 (collection_name cfg) (db_url cfg) (HfEmbedder cfg) (embedder_dim cfg))
        \<or> (\<forall>v. r \<noteq> Return v))"
  by (simp add: create_vector_db_def prog_defs Let_def split: sum.splits)

lemma create_knowledge_base_calls:
  "\<exists>r t'. create_knowledge_base w v t = (r, t') \<and>
     ((r = Return (PDFUrlKnowledgeBase
            [''https://www.nobelprize.org/uploads/2024/10/advanced-chemistryprize2024.pdf''] v) \<and>
       calls t' = calls t @ [NewKnowledgeBase (PDFUrlKnowledgeBase
            [''https://www.nobelprize.org/uploads/2024/10/advanced-chemistryprize2024.pdf''] v),
          LoadKnowledgeBase (PDFUrlKnowledgeBase
            [''https://www.nobelprize.org/uploads/2024/10/advanced-chemistryprize2024.pdf''] v) False])
      \<or> ((\<forall>x. r \<noteq> Return x) \<and>
          (calls t' = calls t @ [NewKnowledgeBase (PDFUrlKnowledgeBase
            [''https://www.nobelprize.org/uploads/2024/10/advanced-chemistryprize2024.pdf''] v)]
           \<or> calls t' = calls t @ [NewKnowledgeBase (PDFUrlKnowledgeBase
            [''https://www.nobelprize.org/uploads/2024/10/advanced-chemistryprize2024.pdf''] v),
          LoadKnowledgeBase (PDFUrlKnowledgeBase
            [''https://www.nobelprize.org/uploads/2024/10/advanced-chemistryprize2024.pdf''] v) False])))"
  by (simp add: create_knowledge_base_def create_knowledge_base_try_def prog_defs calls_def Let_def
           split: sum.splits)

lemma resolve_session_calls:
  "\<exists>r t'. resolve_session w st new_session user_id t = (r, t') \<and>
     ((\<exists>run_id. r = Return run_id \<and>
         calls t' = calls t @ (if new_session then [] else [GetAllRunIds st user_id]) \<and>
         (if new_session then run_id = None
          else \<exists>runs. ext_get_all_run_ids w t st user_id = Inr runs \<and>
                 run_id = (case runs of [] \<Rightarrow> None | first_run # rest \<Rightarrow> Some first_run)))
      \<or> ((\<forall>x. r \<noteq> Return x) \<and> \<not> new_session \<and> calls t' = calls t @ [GetAllRunIds st user_id]))"
  by (simp add: resolve_session_def prog_defs calls_def split: sum.splits list.splits)

text \<open>
  The library calls of \<^verbatim>\<open>main\<close> from an empty trace, in every world: the run stops at
  the first call that fails, and \<^verbatim>\<open>run_id\<close> is what the session lookup gave.
\<close>

lemma bind_prog_Return: "m t = (Return v, t1) \<Longrightarrow> bind_prog m f t = f v t1"
  by (simp add: bind_prog_def)

lemma bind_prog_fail: "m t = (r, t1) \<Longrightarrow> \<forall>v. r \<noteq> Return v \<Longrightarrow> snd (bind_prog m f t) = t1"
  by (cases r) (simp_all add: bind_prog_def)

lemma main_calls:
  fixes cfg w new_session user_id
  defines "V \<equiv> PgVector2 (collection_name cfg) (db_url cfg) (HfEmbedder cfg) (embedder_dim cfg)"
  defines "KB \<equiv> PDFUrlKnowledgeBase
            [''https://www.nobelprize.org/uploads/2024/10/advanced-chemistryprize2024.pdf''] V"
  defines "ST \<equiv> PgAssistantStorage (table_name cfg) (db_url cfg)"
  defines "DB \<equiv> [CreateEngine (db_url cfg), Connect,
                  Execute ''CREATE EXTENSION IF NOT EXISTS vector'', Commit, Close]"
  defines "PRE \<equiv> DB @ [NewPgVector2 V, NewKnowledgeBase KB, LoadKnowledgeBase KB False, NewStorage ST]"
  defines "G \<equiv> (if new_session then [] else [GetAllRunIds ST user_id])"
  defines "T \<equiv> snd (main cfg w new_session user_id [])"
  shows "calls T \<in> set [
            [CreateEngine (db_url cfg)],
            [CreateEngine (db_url cfg), Connect],
            [CreateEngine (db_url cfg), Connect,
               Execute ''CREATE EXTENSION IF NOT EXISTS vector'', Close],
            DB, DB @ [NewPgVector2 V], DB @ [NewPgVector2 V, NewKnowledgeBase KB],
            DB @ [NewPgVector2 V, NewKnowledgeBase KB, LoadKnowledgeBase KB False], PRE]
         \<or> (\<not> new_session \<and> calls T = PRE @ [GetAllRunIds ST user_id])
         \<or> (\<exists>run_id.
               (if new_session then run_id = None
                else \<exists>t runs. ext_get_all_run_ids w t ST user_id = Inr runs \<and>
                       run_id = (case runs of [] \<Rightarrow> None | first_run # rest \<Rightarrow> Some first_run)) \<and>
               (calls T = PRE @ G @ [NewAssistant (Assistant run_id user_id KB ST [] True True)]
                \<or> calls T = PRE @ G @ [NewAssistant (Assistant run_id user_id KB ST [] True True),
                                        CliApp (Assistant run_id user_id KB ST [] True True) True]))"
proof -
  obtain r1 t1 where s1: "setup_database cfg w [] = (r1, t1)"
    and c1: "(r1 = Return () \<and> calls t1 = DB)
        \<or> ((\<forall>v. r1 \<noteq> Return v) \<and>
            (calls t1 = [CreateEngine (db_url cfg)]
             \<or> calls t1 = [CreateEngine (db_url cfg), Connect]
             \<or> calls t1 = [CreateEngine (db_url cfg), Connect,
                           Execute ''CREATE EXTENSION IF NOT EXISTS vector'', Close]
             \<or> calls t1 = DB))"
    using setup_database_calls [of cfg w "[]"] by (auto simp: DB_def calls_def)
  show ?thesis
  proof (cases "\<forall>v. r1 \<noteq> Return v")
    case True
    then have "T = t1"
      using s1 by (simp add: T_def main_def bind_prog_fail)
    then show ?thesis using c1 True by auto
  next
    case False
    then have r1: "r1 = Return ()" and ct1: "calls t1 = DB" using c1 by auto
    obtain r2 where s2: "create_vector_db cfg w t1 = (r2, t1 @ [NewPgVector2 V])"
      and c2: "r2 = Return V \<or> (\<forall>v. r2 \<noteq> Return v)"
      using create_vector_db_calls [of cfg w t1] by (auto simp: V_def)
    show ?thesis
    proof (cases "\<forall>v. r2 \<noteq> Return v")
      case True
      then have "T = t1 @ [NewPgVector2 V]"
        using s1 r1 s2 by (simp add: T_def main_def bind_prog_Return bind_prog_fail)
      then show ?thesis using ct1 by (simp add: calls_append calls_def)
    next
      case False
      then have r2: "r2 = Return V" using c2 by auto
      obtain r3 t3 where s3: "create_knowledge_base w V (t1 @ [NewPgVector2 V]) = (r3, t3)"
        and c3: "(r3 = Return KB \<and>
                  calls t3 = DB @ [NewPgVector2 V, NewKnowledgeBase KB, LoadKnowledgeBase KB False])
          \<or> ((\<forall>x. r3 \<noteq> Return x) \<and>
              (calls t3 = DB @ [NewPgVector2 V, NewKnowledgeBase KB]
               \<or> calls t3 = DB @ [NewPgVector2 V, NewKnowledgeBase KB, LoadKnowledgeBase KB False]))"
        using create_knowledge_base_calls [of w V "t1 @ [NewPgVector2 V]"] ct1
        by (auto simp: KB_def calls_append calls_def)
      show ?thesis
      proof (cases "\<forall>x. r3 \<noteq> Return x")
        case True
        then have "T = t3"
          using s1 r1 s2 r2 s3 by (simp add: T_def main_def bind_prog_Return bind_prog_fail)
        then show ?thesis using c3 True by auto
      next
        case False
        then have r3: "r3 = Return KB"
          and ct3: "calls t3 = DB @ [NewPgVector2 V, NewKnowledgeBase KB, LoadKnowledgeBase KB False]"
          using c3 by auto
        have m3: "main cfg w new_session user_id [] =
                    bind_prog (call (\<lambda>t. ext_PgAssistantStorage w t ST) (NewStorage ST)) (\<lambda>_.
                    bind_prog (resolve_session w ST new_session user_id) (\<lambda>run_id.
                    bind_prog (call (\<lambda>t. ext_Assistant w t (Assistant run_id user_id KB ST [] True True))
                                 (NewAssistant (Assistant run_id user_id KB ST [] True True)))
                      (\<lambda>assistant_run_id.
                    bind_prog (logger_info (''Starting assistant session: '' @ assistant_run_id)) (\<lambda>_.
                    call (\<lambda>t. ext_cli_app w t (Assistant run_id user_id KB ST [] True True) True)
                         (CliApp (Assistant run_id user_id KB ST [] True True) True))))) t3"
          using s1 r1 s2 r2 s3 r3
          by (simp add: main_def bind_prog_Return Let_def ST_def)
        show ?thesis
        proof (cases "ext_PgAssistantStorage w t3 ST")
          case (Inl e)
          then have "T = t3 @ [NewStorage ST]"
            by (simp add: T_def m3 bind_prog_def call_def)
          then show ?thesis using ct3 by (simp add: calls_append calls_def PRE_def)
        next
          case (Inr u)
          have ct4: "calls (t3 @ [NewStorage ST]) = PRE"
            using ct3 by (simp add: calls_append calls_def PRE_def)
          obtain r5 t5 where s5: "resolve_session w ST new_session user_id (t3 @ [NewStorage ST]) = (r5, t5)"
            and c5: "(\<exists>run_id. r5 = Return run_id \<and> calls t5 = PRE @ G \<and>
                       (if new_session then run_id = None
                        else \<exists>runs. ext_get_all_run_ids w (t3 @ [NewStorage ST]) ST user_id = Inr runs \<and>
                          run_id = (case runs of [] \<Rightarrow> None | first_run # rest \<Rightarrow> Some first_run)))
                  \<or> ((\<forall>x. r5 \<noteq> Return x) \<and> \<not> new_session \<and> calls t5 = PRE @ [GetAllRunIds ST user_id])"
            using resolve_session_calls [of w ST new_session user_id "t3 @ [NewStorage ST]"]
            unfolding ct4 G_def by blast
          have m4: "main cfg w new_session user_id [] =
                    bind_prog (resolve_session w ST new_session user_id) (\<lambda>run_id.
                    bind_prog (call (\<lambda>t. ext_Assistant w t (Assistant run_id user_id KB ST [] True True))
                                 (NewAssistant (Assistant run_id user_id KB ST [] True True)))
                      (\<lambda>assistant_run_id.
                    bind_prog (logger_info (''Starting assistant session: '' @ assistant_run_id)) (\<lambda>_.
                    call (\<lambda>t. ext_cli_app w t (Assistant run_id user_id KB ST [] True True) True)
                         (CliApp (Assistant run_id user_id KB ST [] True True) True))))
                      (t3 @ [NewStorage ST])"
            using Inr by (simp add: m3 bind_prog_def call_def)
          show ?thesis
          proof (cases "\<forall>x. r5 \<noteq> Return x")
            case True
            then have "T = t5"
              using s5 by (simp add: T_def m4 bind_prog_fail)
            then show ?thesis using c5 True by auto
          next
            case False
            then obtain run_id where r5: "r5 = Return run_id" and ct5: "calls t5 = PRE @ G"
              and rid: "if new_session then run_id = None
                        else \<exists>runs. ext_get_all_run_ids w (t3 @ [NewStorage ST]) ST user_id = Inr runs \<and>
                          run_id = (case runs of [] \<Rightarrow> None | first_run # rest \<Rightarrow> Some first_run)"
              using c5 by auto
            let ?A = "Assistant run_id user_id KB ST [] True True"
            have "T = t5 @ [NewAssistant ?A]
                  \<or> (\<exists>msg. T = t5 @ [NewAssistant ?A, Log INFO msg, CliApp ?A True])"
              using s5 r5
              by (simp add: T_def m4 bind_prog_def call_def logger_info_def split: sum.splits)
            then have "calls T = PRE @ G @ [NewAssistant ?A]
                  \<or> calls T = PRE @ G @ [NewAssistant ?A, CliApp ?A True]"
              using ct5 by (auto simp: calls_append calls_def)
            moreover have "if new_session then run_id = None
                else \<exists>t runs. ext_get_all_run_ids w t ST user_id = Inr runs \<and>
                       run_id = (case runs of [] \<Rightarrow> None | first_run # rest \<Rightarrow> Some first_run)"
              using rid by (cases new_session) auto
            ultimately show ?thesis by blast
          qed
        qed
      qed
    qed
  qed
qed

text \<open>\<^verbatim>\<open>main\<close> in the sample world, resuming a session and opening a new one.\<close>

lemma main_example_resume:
  "snd (main (config Map.empty Map.empty) example_world False ''default_user'' []) =
     [Log INFO ''Initializing database connection'',
      CreateEngine ''postgresql+psycopg://ai:ai@localhost:5532/ai'', Connect,
      Execute ''CREATE EXTENSION IF NOT EXISTS vector'', Commit, Close,
      Log INFO ''Database extension setup completed'',
      NewPgVector2 (PgVector2 ''science_docs'' ''postgresql+psycopg://ai:ai@localhost:5532/ai''
         \<lparr>model_name = ''all-MiniLM-L6-v2'', priv_model = None\<rparr> 384),
      Log INFO ''Creating knowledge base'',
      NewKnowledgeBase (PDFUrlKnowledgeBase
         [''https://www.nobelprize.org/uploads/2024/10/advanced-chemistryprize2024.pdf'']
         (PgVector2 ''science_docs'' ''postgresql+psycopg://ai:ai@localhost:5532/ai''
            \<lparr>model_name = ''all-MiniLM-L6-v2'', priv_model = None\<rparr> 384)),
      Log INFO ''Loading documents into vector database'',
      LoadKnowledgeBase (PDFUrlKnowledgeBase
         [''https://www.nobelprize.org/uploads/2024/10/advanced-chemistryprize2024.pdf'']
         (PgVector2 ''science_docs'' ''postgresql+psycopg://ai:ai@localhost:5532/ai''
            \<lparr>model_name = ''all-MiniLM-L6-v2'', priv_model = None\<rparr> 384)) False,
      NewStorage (PgAssistantStorage ''science_assistant''
         ''postgresql+psycopg://ai:ai@localhost:5532/ai''),
      GetAllRunIds (PgAssistantStorage ''science_assistant''
         ''postgresql+psycopg://ai:ai@localhost:5532/ai'') ''default_user'',
      Log INFO ''Resuming existing session: run-1'',
      NewAssistant (Assistant (Some ''run-1'') ''default_user''
         (PDFUrlKnowledgeBase
           [''https://www.nobelprize.org/uploads/2024/10/advanced-chemistryprize2024.pdf'']
           (PgVector2 ''science_docs'' ''postgresql+psycopg://ai:ai@localhost:5532/ai''
              \<lparr>model_name = ''all-MiniLM-L6-v2'', priv_model = None\<rparr> 384))
         (PgAssistantStorage ''science_assistant'' ''postgresql+psycopg://ai:ai@localhost:5532/ai'')
         [] True True),
      Log INFO ''Starting assistant session: run-1'',
      CliApp (Assistant (Some ''run-1'') ''default_user''
         (PDFUrlKnowledgeBase
           [''https://www.nobelprize.org/uploads/2024/10/advanced-chemistryprize2024.pdf'']
           (PgVector2 ''science_docs'' ''postgresql+psycopg://ai:ai@localhost:5532/ai''
              \<lparr>model_name = ''all-MiniLM-L6-v2'', priv_model = None\<rparr> 384))
         (PgAssistantStorage ''science_assistant'' ''postgresql+psycopg://ai:ai@localhost:5532/ai'')
         [] True True) True]"
  by (simp add: main_def setup_defs prog_defs cfg_defs example_world_simps Let_def)

lemma main_example_new:
  "NewAssistant (Assistant None ''default_user''
         (PDFUrlKnowledgeBase
           [''https://www.nobelprize.org/uploads/2024/10/advanced-chemistryprize2024.pdf'']
           (PgVector2 ''science_docs'' ''postgresql+psycopg://ai:ai@localhost:5532/ai''
              \<lparr>model_name = ''all-MiniLM-L6-v2'', priv_model = None\<rparr> 384))
         (PgAssistantStorage ''science_assistant'' ''postgresql+psycopg://ai:ai@localhost:5532/ai'')
         [] True True)
     \<in> set (snd (main (config Map.empty Map.empty) example_world True ''default_user'' []))"
  by (simp add: main_def setup_defs prog_defs cfg_defs example_world_simps Let_def)

text \<open>What a \<^verbatim>\<open>Settings\<close> that was built holds.\<close>

lemma Settings_Inr:
  assumes "Settings int_validator environ dotenv_file = Inr s"
  shows "\<exists>d. (case env_value environ dotenv_file ''EMBEDDING_DIM'' of
                None \<Rightarrow> Some 384 | Some v \<Rightarrow> int_validator v) = Some d
          \<and> s = \<lparr> DB_URL = (case env_value environ dotenv_file ''DB_URL'' of
                               None \<Rightarrow> ''postgresql+psycopg://ai:ai@localhost:5532/ai'' | Some v \<Rightarrow> v),
                   EMBEDDER_MODEL = (case env_value environ dotenv_file ''EMBEDDER_MODEL'' of
                               None \<Rightarrow> ''all-MiniLM-L6-v2'' | Some v \<Rightarrow> v),
                   EMBEDDING_DIM = d,
                   COLLECTION_NAME = (case env_value environ dotenv_file ''COLLECTION_NAME'' of
                               None \<Rightarrow> ''science_docs'' | Some v \<Rightarrow> v),
                   TABLE_NAME = (case env_value environ dotenv_file ''TABLE_NAME'' of
                               None \<Rightarrow> ''science_assistant'' | Some v \<Rightarrow> v) \<rparr>"
proof (cases "case env_value environ dotenv_file ''EMBEDDING_DIM'' of
                None \<Rightarrow> Some 384 | Some v \<Rightarrow> int_validator v")
  case None
  then show ?thesis using assms by (simp add: Settings_def Let_def)
next
  case (Some d)
  then show ?thesis using assms by (simp add: Settings_def Let_def)
qed

text \<open>Lower-casing of the five variable names, and lookups that find nothing.\<close>

lemma env_value_empty: "env_value [] [] name = None"
  by (simp add: env_value_def lowered_def)

lemma lower_DB_URL: "lower ''DB_URL'' = ''db_url''" "lower ''db_url'' = ''db_url''"
  "lower ''Db_Url'' = ''db_url''"
  by (simp_all add: lower_def lower_char_def)

lemma lower_names:
  "lower ''EMBEDDER_MODEL'' = ''embedder_model''"
  "lower ''EMBEDDING_DIM'' = ''embedding_dim''"
  "lower ''COLLECTION_NAME'' = ''collection_name''"
  "lower ''TABLE_NAME'' = ''table_name''"
  by (simp_all add: lower_def lower_char_def)

lemma env_value_only_db_url:
  "env_value [(''db_url'', ''postgresql+psycopg://kb:kb@db.internal:5432/kb'')] [] ''DB_URL''
     = Some ''postgresql+psycopg://kb:kb@db.internal:5432/kb''"
  "env_value [(''db_url'', ''postgresql+psycopg://kb:kb@db.internal:5432/kb'')] [] ''EMBEDDER_MODEL'' = None"
  "env_value [(''db_url'', ''postgresql+psycopg://kb:kb@db.internal:5432/kb'')] [] ''EMBEDDING_DIM'' = None"
  "env_value [(''db_url'', ''postgresql+psycopg://kb:kb@db.internal:5432/kb'')] [] ''COLLECTION_NAME'' = None"
  "env_value [(''db_url'', ''postgresql+psycopg://kb:kb@db.internal:5432/kb'')] [] ''TABLE_NAME'' = None"
  by (simp_all add: env_value_def lowered_def lower_DB_URL lower_names)

text \<open>
  \<^verbatim>\<open>Settings\<close> finds a variable under any spelling of its name; of two spellings in the
  environment the later one stays, and the environment goes before the file.
\<close>

lemma Settings_case_insensitive:
  "Settings int_validator [(''db_url'', ''lower'')] [] =
     Inr \<lparr> DB_URL = ''lower'', EMBEDDER_MODEL = ''all-MiniLM-L6-v2'', EMBEDDING_DIM = 384,
           COLLECTION_NAME = ''science_docs'', TABLE_NAME = ''science_assistant'' \<rparr>"
  "Settings int_validator [(''DB_URL'', ''upper''), (''db_url'', ''lower'')] [(''Db_Url'', ''file'')] =
     Inr \<lparr> DB_URL = ''lower'', EMBEDDER_MODEL = ''all-MiniLM-L6-v2'', EMBEDDING_DIM = 384,
           COLLECTION_NAME = ''science_docs'', TABLE_NAME = ''science_assistant'' \<rparr>"
  by (simp_all add: Settings_def env_value_def lowered_def lower_DB_URL lower_names Let_def)

text \<open>With pydantic 2 the module \<^verbatim>\<open>config.py\<close> has no settings at all.\<close>

lemma config_py_pydantic2:
  "config_py PydanticV2 int_validator environ dotenv_file =
     Inl (Exn OtherException ''`BaseSettings` has been moved to the `pydantic-settings` package.'')"
  by (simp add: config_py_def)

text \<open>
  When every library call of the setup answers, \<^verbatim>\<open>main\<close> constructs the assistant, and
  when the assistant and the interactive loop answer as well it returns after all six
  steps, the loop being entered last.
\<close>

lemma main_constructs_assistant:
  assumes "\<And>t. ext_create_engine w t (db_url cfg) = Inr ()"
    and "\<And>t. ext_connect w t = Inr ()"
    and "\<And>t. ext_execute w t ''CREATE EXTENSION IF NOT EXISTS vector'' = Inr ()"
    and "\<And>t. ext_commit w t = Inr ()"
    and "\<And>t. ext_close w t = Inr ()"
    and "\<And>t. ext_PgVector2 w t
            (PgVector2 (collection_name cfg) (db_url cfg) (HfEmbedder cfg) (embedder_dim cfg)) = Inr ()"
    and "\<And>t. ext_PDFUrlKnowledgeBase w t (PDFUrlKnowledgeBase
            [''https://www.nobelprize.org/uploads/2024/10/advanced-chemistryprize2024.pdf'']
            (PgVector2 (collection_name cfg) (db_url cfg) (HfEmbedder cfg) (embedder_dim cfg))) = Inr ()"
    and "\<And>t. ext_load w t (PDFUrlKnowledgeBase
            [''https://www.nobelprize.org/uploads/2024/10/advanced-chemistryprize2024.pdf'']
            (PgVector2 (collection_name cfg) (db_url cfg) (HfEmbedder cfg) (embedder_dim cfg))) False
          = Inr ()"
    and "\<And>t. ext_PgAssistantStorage w t (PgAssistantStorage (table_name cfg) (db_url cfg)) = Inr ()"
    and "new_session \<or>
         (\<forall>t. ext_get_all_run_ids w t (PgAssistantStorage (table_name cfg) (db_url cfg)) user_id
                = Inr existing_runs)"
  shows "NewAssistant (Assistant
            (if new_session then None
             else case existing_runs of [] \<Rightarrow> None | first_run # rest \<Rightarrow> Some first_run)
            user_id
            (PDFUrlKnowledgeBase
              [''https://www.nobelprize.org/uploads/2024/10/advanced-chemistryprize2024.pdf'']
              (PgVector2 (collection_name cfg) (db_url cfg) (HfEmbedder cfg) (embedder_dim cfg)))
            (PgAssistantStorage (table_name cfg) (db_url cfg)) [] True True)
         \<in> set (snd (main cfg w new_session user_id []))"
proof (cases new_session)
  case True
  then show ?thesis
    using assms(1-9)
    by (simp add: main_def setup_defs prog_defs Let_def split: sum.splits)
next
  case False
  then have g: "\<And>t. ext_get_all_run_ids w t (PgAssistantStorage (table_name cfg) (db_url cfg)) user_id
                = Inr existing_runs"
    using assms(10) by simp
  show ?thesis
    using False assms(1-9) g
    by (simp add: main_def setup_defs prog_defs Let_def split: sum.splits list.splits)
qed

lemma main_reaches_cli_app:
  assumes "\<And>t. ext_create_engine w t (db_url cfg) = Inr ()"
    and "\<And>t. ext_connect w t = Inr ()"
    and "\<And>t. ext_execute w t ''CREATE EXTENSION IF NOT EXISTS vector'' = Inr ()"
    and "\<And>t. ext_commit w t = Inr ()"
    and "\<And>t. ext_close w t = Inr ()"
    and "\<And>t. ext_PgVector2 w t
            (PgVector2 (collection_name cfg) (db_url cfg) (HfEmbedder cfg) (embedder_dim cfg)) = Inr ()"
    and "\<And>t. ext_PDFUrlKnowledgeBase w t (PDFUrlKnowledgeBase
            [''https://www.nobelprize.org/uploads/2024/10/advanced-chemistryprize2024.pdf'']
            (PgVector2 (collection_name cfg) (db_url cfg) (HfEmbedder cfg) (embedder_dim cfg))) = Inr ()"
    and "\<And>t. ext_load w t (PDFUrlKnowledgeBase
            [''https://www.nobelprize.org/uploads/2024/10/advanced-chemistryprize2024.pdf'']
            (PgVector2 (collection_name cfg) (db_url cfg) (HfEmbedder cfg) (embedder_dim cfg))) False
          = Inr ()"
    and "\<And>t. ext_PgAssistantStorage w t (PgAssistantStorage (table_name cfg) (db_url cfg)) = Inr ()"
    and "new_session \<or>
         (\<forall>t. \<exists>runs. ext_get_all_run_ids w t (PgAssistantStorage (table_name cfg) (db_url cfg)) user_id
                = Inr runs)"
    and "\<And>t a. \<exists>r. ext_Assistant w t a = Inr r"
    and "\<And>t a. ext_cli_app w t a True = Inr ()"
  shows "fst (main cfg w new_session user_id []) = Return ()
     \<and> steps (snd (main cfg w new_session user_id [])) =
         [SetupDatabase, CreateVectorDb, CreateKnowledgeBase, CreateStorage, ResolveSession, RunCliApp]
     \<and> (\<exists>run_id. last (snd (main cfg w new_session user_id [])) =
           CliApp (Assistant run_id user_id
             (PDFUrlKnowledgeBase
               [''https://www.nobelprize.org/uploads/2024/10/advanced-chemistryprize2024.pdf'']
               (PgVector2 (collection_name cfg) (db_url cfg) (HfEmbedder cfg) (embedder_dim cfg)))
             (PgAssistantStorage (table_name cfg) (db_url cfg)) [] True True) True)"
proof -
  have a: "\<And>t a e. ext_Assistant w t a \<noteq> Inl e"
    using assms(11) by (metis Inl_Inr_False)
  show ?thesis
  proof (cases new_session)
    case True
    then show ?thesis
      using assms(1-9) assms(12) a
      by (simp add: main_def setup_defs prog_defs Let_def steps_def List.map_filter_simps
               split: sum.splits)
  next
    case False
    then have g: "\<And>t e. ext_get_all_run_ids w t (PgAssistantStorage (table_name cfg) (db_url cfg))
                    user_id \<noteq> Inl e"
      using assms(10) by (metis Inl_Inr_False)
    show ?thesis
      using False assms(1-9) assms(12) a g
      by (simp add: main_def setup_defs prog_defs Let_def steps_def List.map_filter_simps
               split: sum.splits list.splits)
  qed
qed

subsection \<open>The claims\<close>

text \<open>
  Claim C1. When the model handle is obtained and \<^verbatim>\<open>encode\<close> returns an embedding whose
  length differs from \<^verbatim>\<open>config.embedder_dim\<close>, \<^verbatim>\<open>get_embedding_and_usage\<close> logs the mismatch
  (with the expected and the actual length) and raises
  \<^verbatim>\<open>ValueError("Embedding dimension mismatch")\<close>, which its own handler logs once more on the
  way out. When the length equals \<^verbatim>\<open>config.embedder_dim\<close>, nothing is raised and the
  embedding is returned as it came.
\<close>
theorem dimension_check:
  assumes "model w self t = (Return m, self1, t1)"
    and "ext_encode w t1 m text = Inr embedding"
  shows "(int (length embedding) \<noteq> embedder_dim cfg \<longrightarrow>
            get_embedding_and_usage cfg w self text t =
              (Raise (Exn ValueError ''Embedding dimension mismatch''), self1,
               t1 @ [Encode m text,
                     Log ERROR (''Embedding dimension mismatch: Expected ''
                        @ str_int (embedder_dim cfg) @ '', got '' @ str_int (int (length embedding))),
                     Log ERROR ''Embedding generation failed: Embedding dimension mismatch'']))
       \<and> (int (length embedding) = embedder_dim cfg \<longrightarrow>
            (\<exists>usage. get_embedding_and_usage cfg w self text t =
              (Return (embedding, usage), self1, t1 @ [Encode m text])))"
  using assms
  by (simp add: get_embedding_and_usage_def get_embedding_and_usage_try_def Let_def)

text \<open>
  The check at work with the default dimension 384: an embedding of three components is
  refused, one of 384 components is returned.
\<close>
theorem dimension_check_witness:
  "get_embedding_and_usage (config Map.empty Map.empty)
      (example_world\<lparr>ext_encode := (\<lambda>t m text. Inr [1, 2, 3])\<rparr>)
      (HfEmbedder (config Map.empty Map.empty)) ''hello'' [] =
     (Raise (Exn ValueError ''Embedding dimension mismatch''),
      \<lparr>model_name = ''all-MiniLM-L6-v2'', priv_model = Some (ModelHandle 1)\<rparr>,
      [Log INFO ''Loading embedding model: all-MiniLM-L6-v2'',
       LoadModel ''all-MiniLM-L6-v2'', Encode (ModelHandle 1) ''hello'',
       Log ERROR ''Embedding dimension mismatch: Expected 384, got 3'',
       Log ERROR ''Embedding generation failed: Embedding dimension mismatch''])
   \<and> (\<exists>usage. get_embedding_and_usage (config Map.empty Map.empty) example_world
          (HfEmbedder (config Map.empty Map.empty)) ''hello'' [] =
        (Return (replicate 384 0, usage),
         \<lparr>model_name = ''all-MiniLM-L6-v2'', priv_model = Some (ModelHandle 1)\<rparr>,
         [Log INFO ''Loading embedding model: all-MiniLM-L6-v2'',
          LoadModel ''all-MiniLM-L6-v2'', Encode (ModelHandle 1) ''hello'']))"
proof -
  let ?cfg = "config Map.empty Map.empty"
  let ?self = "HfEmbedder ?cfg"
  let ?self1 = "\<lparr>model_name = ''all-MiniLM-L6-v2'', priv_model = Some (ModelHandle 1)\<rparr>"
  let ?t1 = "[Log INFO ''Loading embedding model: all-MiniLM-L6-v2'', LoadModel ''all-MiniLM-L6-v2'']"
  let ?bad = "example_world\<lparr>ext_encode := (\<lambda>t m text. Inr [1, 2, 3])\<rparr>"
  have m_bad: "model ?bad ?self [] = (Return (ModelHandle 1), ?self1, ?t1)"
    by (simp add: model_def HfEmbedder_def config_def AppConfig_def example_world_def)
  have e_bad: "ext_encode ?bad ?t1 (ModelHandle 1) ''hello'' = Inr [1, 2, 3]"
    by simp
  have m_ok: "model example_world ?self [] = (Return (ModelHandle 1), ?self1, ?t1)"
    by (simp add: model_def HfEmbedder_def config_def AppConfig_def example_world_def)
  have e_ok: "ext_encode example_world ?t1 (ModelHandle 1) ''hello'' = Inr (replicate 384 0)"
    by (simp add: example_world_def)
  show ?thesis
    using dimension_check [OF m_bad e_bad, of ?cfg] dimension_check [OF m_ok e_ok, of ?cfg]
    by (simp add: config_def AppConfig_def str_int_def str_nat.simps digit_char_def)
qed



text \<open>
  Claim C3, as the code has it. \<^verbatim>\<open>config\<close>, the record the program uses, is
  \<^verbatim>\<open>AppConfig()\<close> whatever the environment and the \<^verbatim>\<open>.env\<close> file hold: with \<^verbatim>\<open>DB_URL\<close> set in
  the \<^verbatim>\<open>.env\<close> file, or \<^verbatim>\<open>db_url\<close> set in the environment, \<^verbatim>\<open>config.db_url\<close> is still the
  default. \<^verbatim>\<open>Settings\<close> of \<^verbatim>\<open>config.py\<close>, which the program never imports, does take the
  value.
\<close>
theorem config_ignores_environment:
  "config environ dotenv_file = AppConfig None None None None None
   \<and> db_url (config Map.empty
        [''DB_URL'' \<mapsto> ''postgresql+psycopg://kb:kb@db.internal:5432/kb''])
       = ''postgresql+psycopg://ai:ai@localhost:5532/ai''
   \<and> db_url (config [''db_url'' \<mapsto> ''postgresql+psycopg://kb:kb@db.internal:5432/kb'']
        Map.empty)
       = ''postgresql+psycopg://ai:ai@localhost:5532/ai''
   \<and> Settings int_validator []
        [(''DB_URL'', ''postgresql+psycopg://kb:kb@db.internal:5432/kb'')]
       = Inr \<lparr> DB_URL = ''postgresql+psycopg://kb:kb@db.internal:5432/kb'',
               EMBEDDER_MODEL = ''all-MiniLM-L6-v2'', EMBEDDING_DIM = 384,
               COLLECTION_NAME = ''science_docs'', TABLE_NAME = ''science_assistant'' \<rparr>"
  by (simp add: config_def AppConfig_def Settings_def env_value_def lowered_def lower_DB_URL
                lower_names Let_def)

text \<open>
  Claim C4. The \<^verbatim>\<open>run_id\<close> the \<^verbatim>\<open>Assistant\<close> is constructed with. Every assistant that
  \<^verbatim>\<open>main\<close> constructs has \<^verbatim>\<open>run_id = None\<close> when \<^verbatim>\<open>new_session\<close> is set; without it, when the
  storage answers the lookup for the user with the list \<open>existing_runs\<close>, it has the first
  element of that list, and \<^verbatim>\<open>None\<close> when the list is empty. And the assistant is constructed:
  when the library calls of the setup answer, and the lookup (made only without
  \<^verbatim>\<open>new_session\<close>) answers \<open>existing_runs\<close>, the construction with that \<^verbatim>\<open>run_id\<close>, the user,
  the knowledge base and the storage is in the trace of \<^verbatim>\<open>main\<close>.
\<close>
theorem main_session_resume:
  "(new_session \<and> NewAssistant (Assistant run_id uid kb st tools stc rch)
        \<in> set (snd (main cfg w new_session user_id [])) \<longrightarrow> run_id = None)
   \<and> (\<not> new_session \<and>
       (\<forall>t. ext_get_all_run_ids w t (PgAssistantStorage (table_name cfg) (db_url cfg)) user_id
              = Inr existing_runs) \<and>
       NewAssistant (Assistant run_id uid kb st tools stc rch)
        \<in> set (snd (main cfg w new_session user_id [])) \<longrightarrow>
       run_id = (case existing_runs of [] \<Rightarrow> None | first_run # rest \<Rightarrow> Some first_run))
   \<and> ((\<forall>t. ext_create_engine w t (db_url cfg) = Inr ())
       \<and> (\<forall>t. ext_connect w t = Inr ())
       \<and> (\<forall>t. ext_execute w t ''CREATE EXTENSION IF NOT EXISTS vector'' = Inr ())
       \<and> (\<forall>t. ext_commit w t = Inr ())
       \<and> (\<forall>t. ext_close w t = Inr ())
       \<and> (\<forall>t. ext_PgVector2 w t (PgVector2 (collection_name cfg) (db_url cfg) (HfEmbedder cfg) (embedder_dim cfg)) = Inr ())
       \<and> (\<forall>t. ext_PDFUrlKnowledgeBase w t (PDFUrlKnowledgeBase
              [''https://www.nobelprize.org/uploads/2024/10/advanced-chemistryprize2024.pdf'']
              (PgVector2 (collection_name cfg) (db_url cfg) (HfEmbedder cfg) (embedder_dim cfg))) = Inr ())
       \<and> (\<forall>t. ext_load w t (PDFUrlKnowledgeBase
              [''https://www.nobelprize.org/uploads/2024/10/advanced-chemistryprize2024.pdf'']
              (PgVector2 (collection_name cfg) (db_url cfg) (HfEmbedder cfg) (embedder_dim cfg))) False = Inr ())
       \<and> (\<forall>t. ext_PgAssistantStorage w t (PgAssistantStorage (table_name cfg) (db_url cfg)) = Inr ())
       \<and> (new_session \<or>
            (\<forall>t. ext_get_all_run_ids w t (PgAssistantStorage (table_name cfg) (db_url cfg)) user_id = Inr existing_runs))
       \<longrightarrow>
       NewAssistant (Assistant
            (if new_session then None
             else case existing_runs of [] \<Rightarrow> None | first_run # rest \<Rightarrow> Some first_run)
            user_id
            (PDFUrlKnowledgeBase
              [''https://www.nobelprize.org/uploads/2024/10/advanced-chemistryprize2024.pdf'']
              (PgVector2 (collection_name cfg) (db_url cfg) (HfEmbedder cfg) (embedder_dim cfg)))
            (PgAssistantStorage (table_name cfg) (db_url cfg)) [] True True)
         \<in> set (snd (main cfg w new_session user_id [])))"
proof -
  have unique: "(new_session \<and> NewAssistant (Assistant run_id uid kb st tools stc rch)
        \<in> set (snd (main cfg w new_session user_id [])) \<longrightarrow> run_id = None)
   \<and> (\<not> new_session \<and>
       (\<forall>t. ext_get_all_run_ids w t (PgAssistantStorage (table_name cfg) (db_url cfg)) user_id
              = Inr existing_runs) \<and>
       NewAssistant (Assistant run_id uid kb st tools stc rch)
        \<in> set (snd (main cfg w new_session user_id [])) \<longrightarrow>
       run_id = (case existing_runs of [] \<Rightarrow> None | first_run # rest \<Rightarrow> Some first_run))"
  proof -
    let ?T = "snd (main cfg w new_session user_id [])"
    let ?A = "Assistant run_id uid kb st tools stc rch"
    note mc = main_calls [of cfg w new_session user_id]
    have 1: "new_session \<Longrightarrow> NewAssistant ?A \<in> set (calls ?T) \<Longrightarrow> run_id = None"
      using mc by (auto split: if_splits)
    have 2: "\<not> new_session \<Longrightarrow>
         \<forall>t. ext_get_all_run_ids w t (PgAssistantStorage (table_name cfg) (db_url cfg)) user_id
                = Inr existing_runs \<Longrightarrow>
         NewAssistant ?A \<in> set (calls ?T) \<Longrightarrow>
         run_id = (case existing_runs of [] \<Rightarrow> None | first_run # rest \<Rightarrow> Some first_run)"
      using mc by (auto split: if_splits)
    show ?thesis using 1 2 by (auto simp: set_calls)
  qed
  have progress: "((\<forall>t. ext_create_engine w t (db_url cfg) = Inr ())
       \<and> (\<forall>t. ext_connect w t = Inr ())
       \<and> (\<forall>t. ext_execute w t ''CREATE EXTENSION IF NOT EXISTS vector'' = Inr ())
       \<and> (\<forall>t. ext_commit w t = Inr ())
       \<and> (\<forall>t. ext_close w t = Inr ())
       \<and> (\<forall>t. ext_PgVector2 w t (PgVector2 (collection_name cfg) (db_url cfg) (HfEmbedder cfg) (embedder_dim cfg)) = Inr ())
       \<and> (\<forall>t. ext_PDFUrlKnowledgeBase w t (PDFUrlKnowledgeBase
              [''https://www.nobelprize.org/uploads/2024/10/advanced-chemistryprize2024.pdf'']
              (PgVector2 (collection_name cfg) (db_url cfg) (HfEmbedder cfg) (embedder_dim cfg))) = Inr ())
       \<and> (\<forall>t. ext_load w t (PDFUrlKnowledgeBase
              [''https://www.nobelprize.org/uploads/2024/10/advanced-chemistryprize2024.pdf'']
              (PgVector2 (collection_name cfg) (db_url cfg) (HfEmbedder cfg) (embedder_dim cfg))) False = Inr ())
       \<and> (\<forall>t. ext_PgAssistantStorage w t (PgAssistantStorage (table_name cfg) (db_url cfg)) = Inr ())
       \<and> (new_session \<or>
            (\<forall>t. ext_get_all_run_ids w t (PgAssistantStorage (table_name cfg) (db_url cfg)) user_id = Inr existing_runs))
       \<longrightarrow>
       NewAssistant (Assistant
            (if new_session then None
             else case existing_runs of [] \<Rightarrow> None | first_run # rest \<Rightarrow> Some first_run)
            user_id
            (PDFUrlKnowledgeBase
              [''https://www.nobelprize.org/uploads/2024/10/advanced-chemistryprize2024.pdf'']
              (PgVector2 (collection_name cfg) (db_url cfg) (HfEmbedder cfg) (embedder_dim cfg)))
            (PgAssistantStorage (table_name cfg) (db_url cfg)) [] True True)
         \<in> set (snd (main cfg w new_session user_id [])))"
    using main_constructs_assistant [of w cfg new_session user_id existing_runs] by blast
  show ?thesis
    by (rule conjI [OF conjunct1 [OF unique] conjI [OF conjunct2 [OF unique] progress]])
qed

text \<open>
  The three cases in the sample world. With the runs \<^verbatim>\<open>run-1\<close> and \<^verbatim>\<open>run-2\<close> stored the
  assistant is constructed with \<^verbatim>\<open>run-1\<close>; with no run stored, and with a new session asked
  for, it is constructed with \<^verbatim>\<open>None\<close>; and no assistant with the other \<^verbatim>\<open>run_id\<close> is
  constructed.
\<close>
theorem main_session_resume_witness:
  "NewAssistant (Assistant (Some ''run-1'') ''default_user''
         (PDFUrlKnowledgeBase
           [''https://www.nobelprize.org/uploads/2024/10/advanced-chemistryprize2024.pdf'']
           (PgVector2 ''science_docs'' ''postgresql+psycopg://ai:ai@localhost:5532/ai''
              \<lparr>model_name = ''all-MiniLM-L6-v2'', priv_model = None\<rparr> 384))
         (PgAssistantStorage ''science_assistant'' ''postgresql+psycopg://ai:ai@localhost:5532/ai'')
         [] True True)
        \<in> set (snd (main (config Map.empty Map.empty) example_world False ''default_user'' []))
   \<and> NewAssistant (Assistant None ''default_user''
         (PDFUrlKnowledgeBase
           [''https://www.nobelprize.org/uploads/2024/10/advanced-chemistryprize2024.pdf'']
           (PgVector2 ''science_docs'' ''postgresql+psycopg://ai:ai@localhost:5532/ai''
              \<lparr>model_name = ''all-MiniLM-L6-v2'', priv_model = None\<rparr> 384))
         (PgAssistantStorage ''science_assistant'' ''postgresql+psycopg://ai:ai@localhost:5532/ai'')
         [] True True)
        \<in> set (snd (main (config Map.empty Map.empty)
                   (example_world\<lparr>ext_get_all_run_ids := (\<lambda>t s user_id. Inr [])\<rparr>)
                   False ''default_user'' []))
   \<and> NewAssistant (Assistant None ''default_user''
         (PDFUrlKnowledgeBase
           [''https://www.nobelprize.org/uploads/2024/10/advanced-chemistryprize2024.pdf'']
           (PgVector2 ''science_docs'' ''postgresql+psycopg://ai:ai@localhost:5532/ai''
              \<lparr>model_name = ''all-MiniLM-L6-v2'', priv_model = None\<rparr> 384))
         (PgAssistantStorage ''science_assistant'' ''postgresql+psycopg://ai:ai@localhost:5532/ai'')
         [] True True)
        \<in> set (snd (main (config Map.empty Map.empty) example_world True ''default_user'' []))
   \<and> NewAssistant (Assistant None ''default_user''
         (PDFUrlKnowledgeBase
           [''https://www.nobelprize.org/uploads/2024/10/advanced-chemistryprize2024.pdf'']
           (PgVector2 ''science_docs'' ''postgresql+psycopg://ai:ai@localhost:5532/ai''
              \<lparr>model_name = ''all-MiniLM-L6-v2'', priv_model = None\<rparr> 384))
         (PgAssistantStorage ''science_assistant'' ''postgresql+psycopg://ai:ai@localhost:5532/ai'')
         [] True True)
        \<notin> set (snd (main (config Map.empty Map.empty) example_world False ''default_user'' []))
   \<and> NewAssistant (Assistant (Some ''run-1'') ''default_user''
         (PDFUrlKnowledgeBase
           [''https://www.nobelprize.org/uploads/2024/10/advanced-chemistryprize2024.pdf'']
           (PgVector2 ''science_docs'' ''postgresql+psycopg://ai:ai@localhost:5532/ai''
              \<lparr>model_name = ''all-MiniLM-L6-v2'', priv_model = None\<rparr> 384))
         (PgAssistantStorage ''science_assistant'' ''postgresql+psycopg://ai:ai@localhost:5532/ai'')
         [] True True)
        \<notin> set (snd (main (config Map.empty Map.empty) example_world True ''default_user'' []))"
proof -
  let ?cfg = "config Map.empty Map.empty"
  let ?kb = "PDFUrlKnowledgeBase
           [''https://www.nobelprize.org/uploads/2024/10/advanced-chemistryprize2024.pdf'']
           (PgVector2 ''science_docs'' ''postgresql+psycopg://ai:ai@localhost:5532/ai''
              \<lparr>model_name = ''all-MiniLM-L6-v2'', priv_model = None\<rparr> 384)"
  let ?st = "PgAssistantStorage ''science_assistant'' ''postgresql+psycopg://ai:ai@localhost:5532/ai''"
  let ?none = "example_world\<lparr>ext_get_all_run_ids := (\<lambda>t s user_id. Inr [])\<rparr>"
  have a: "NewAssistant (Assistant (Some ''run-1'') ''default_user'' ?kb ?st [] True True)
        \<in> set (snd (main ?cfg example_world False ''default_user'' []))"
    using main_session_resume [of False None "''default_user''" ?kb ?st "[]" True True ?cfg
                 example_world "''default_user''" "[''run-1'', ''run-2'']"]
    by (simp add: example_world_simps cfg_defs)
  have b: "NewAssistant (Assistant None ''default_user'' ?kb ?st [] True True)
        \<in> set (snd (main ?cfg ?none False ''default_user'' []))"
    using main_session_resume [of False None "''default_user''" ?kb ?st "[]" True True ?cfg
                 ?none "''default_user''" "[]"]
    by (simp add: example_world_simps cfg_defs)
  have c: "NewAssistant (Assistant None ''default_user'' ?kb ?st [] True True)
        \<in> set (snd (main ?cfg example_world True ''default_user'' []))"
    using main_session_resume [of True None "''default_user''" ?kb ?st "[]" True True ?cfg
                 example_world "''default_user''" "[]"]
    by (simp add: example_world_simps cfg_defs)
  have d: "NewAssistant (Assistant None ''default_user'' ?kb ?st [] True True)
        \<notin> set (snd (main ?cfg example_world False ''default_user'' []))"
    using main_session_resume [of False None "''default_user''" ?kb ?st "[]" True True ?cfg
                 example_world "''default_user''" "[''run-1'', ''run-2'']"]
    by (auto simp: example_world_simps)
  have e: "NewAssistant (Assistant (Some ''run-1'') ''default_user'' ?kb ?st [] True True)
        \<notin> set (snd (main ?cfg example_world True ''default_user'' []))"
    using main_session_resume [of True "Some ''run-1''" "''default_user''" ?kb ?st "[]" True True ?cfg
                 example_world "''default_user''" "[]"]
    by auto
  show ?thesis
    by (rule conjI, rule a, rule conjI, rule b, rule conjI, rule c, rule conjI, rule d, rule e)
qed

text \<open>
  Claim C5. The steps of \<^verbatim>\<open>main\<close> are entered in the fixed order: database setup, vector
  store, knowledge base, storage, session, interactive loop. In every world the steps of
  the trace are an initial part of that order (a failure ends the run where it happens),
  and when control reaches \<^verbatim>\<open>cli_app\<close> all of them were taken, with exactly these library
  calls before it. And the run does go through them: when every library call answers,
  with or without \<^verbatim>\<open>new_session\<close>, \<^verbatim>\<open>main\<close> returns, its steps are the six in this order, and
  the last thing it does is to enter \<^verbatim>\<open>cli_app\<close> of the assistant it constructed.
\<close>
theorem main_step_order:
  "prefix (steps (snd (main cfg w new_session user_id [])))
     [SetupDatabase, CreateVectorDb, CreateKnowledgeBase, CreateStorage, ResolveSession, RunCliApp]
   \<and> (CliApp a markdown \<in> set (snd (main cfg w new_session user_id [])) \<longrightarrow>
        steps (snd (main cfg w new_session user_id [])) =
          [SetupDatabase, CreateVectorDb, CreateKnowledgeBase, CreateStorage, ResolveSession, RunCliApp]
        \<and> calls (snd (main cfg w new_session user_id [])) =
            [CreateEngine (db_url cfg), Connect,
             Execute ''CREATE EXTENSION IF NOT EXISTS vector'', Commit, Close,
             NewPgVector2 (PgVector2 (collection_name cfg) (db_url cfg) (HfEmbedder cfg) (embedder_dim cfg)),
             NewKnowledgeBase (PDFUrlKnowledgeBase
               [''https://www.nobelprize.org/uploads/2024/10/advanced-chemistryprize2024.pdf'']
               (PgVector2 (collection_name cfg) (db_url cfg) (HfEmbedder cfg) (embedder_dim cfg))),
             LoadKnowledgeBase (PDFUrlKnowledgeBase
               [''https://www.nobelprize.org/uploads/2024/10/advanced-chemistryprize2024.pdf'']
               (PgVector2 (collection_name cfg) (db_url cfg) (HfEmbedder cfg) (embedder_dim cfg))) False,
             NewStorage (PgAssistantStorage (table_name cfg) (db_url cfg))]
            @ (if new_session then []
               else [GetAllRunIds (PgAssistantStorage (table_name cfg) (db_url cfg)) user_id])
            @ [NewAssistant a, CliApp a True])
   \<and> ((\<forall>t. ext_create_engine w t (db_url cfg) = Inr ())
       \<and> (\<forall>t. ext_connect w t = Inr ())
       \<and> (\<forall>t. ext_execute w t ''CREATE EXTENSION IF NOT EXISTS vector'' = Inr ())
       \<and> (\<forall>t. ext_commit w t = Inr ())
       \<and> (\<forall>t. ext_close w t = Inr ())
       \<and> (\<forall>t. ext_PgVector2 w t (PgVector2 (collection_name cfg) (db_url cfg) (HfEmbedder cfg) (embedder_dim cfg)) = Inr ())
       \<and> (\<forall>t. ext_PDFUrlKnowledgeBase w t (PDFUrlKnowledgeBase
              [''https://www.nobelprize.org/uploads/2024/10/advanced-chemistryprize2024.pdf'']
              (PgVector2 (collection_name cfg) (db_url cfg) (HfEmbedder cfg) (embedder_dim cfg))) = Inr ())
       \<and> (\<forall>t. ext_load w t (PDFUrlKnowledgeBase
              [''https://www.nobelprize.org/uploads/2024/10/advanced-chemistryprize2024.pdf'']
              (PgVector2 (collection_name cfg) (db_url cfg) (HfEmbedder cfg) (embedder_dim cfg))) False = Inr ())
       \<and> (\<forall>t. ext_PgAssistantStorage w t (PgAssistantStorage (table_name cfg) (db_url cfg)) = Inr ())
       \<and> (new_session \<or>
            (\<forall>t. \<exists>runs. ext_get_all_run_ids w t (PgAssistantStorage (table_name cfg) (db_url cfg)) user_id = Inr runs))
       \<and> (\<forall>t a. \<exists>r. ext_Assistant w t a = Inr r)
       \<and> (\<forall>t a. ext_cli_app w t a True = Inr ())
       \<longrightarrow>
       fst (main cfg w new_session user_id []) = Return ()
       \<and> steps (snd (main cfg w new_session user_id [])) =
           [SetupDatabase, CreateVectorDb, CreateKnowledgeBase, CreateStorage, ResolveSession, RunCliApp]
       \<and> (\<exists>run_id. last (snd (main cfg w new_session user_id [])) =
             CliApp (Assistant run_id user_id
               (PDFUrlKnowledgeBase
              [''https://www.nobelprize.org/uploads/2024/10/advanced-chemistryprize2024.pdf'']
              (PgVector2 (collection_name cfg) (db_url cfg) (HfEmbedder cfg) (embedder_dim cfg)))
               (PgAssistantStorage (table_name cfg) (db_url cfg)) [] True True) True))"
proof -
  have order: "prefix (steps (snd (main cfg w new_session user_id [])))
     [SetupDatabase, CreateVectorDb, CreateKnowledgeBase, CreateStorage, ResolveSession, RunCliApp]
   \<and> (CliApp a markdown \<in> set (snd (main cfg w new_session user_id [])) \<longrightarrow>
        steps (snd (main cfg w new_session user_id [])) =
          [SetupDatabase, CreateVectorDb, CreateKnowledgeBase, CreateStorage, ResolveSession, RunCliApp]
        \<and> calls (snd (main cfg w new_session user_id [])) =
            [CreateEngine (db_url cfg), Connect,
             Execute ''CREATE EXTENSION IF NOT EXISTS vector'', Commit, Close,
             NewPgVector2 (PgVector2 (collection_name cfg) (db_url cfg) (HfEmbedder cfg) (embedder_dim cfg)),
             NewKnowledgeBase (PDFUrlKnowledgeBase
               [''https://www.nobelprize.org/uploads/2024/10/advanced-chemistryprize2024.pdf'']
               (PgVector2 (collection_name cfg) (db_url cfg) (HfEmbedder cfg) (embedder_dim cfg))),
             LoadKnowledgeBase (PDFUrlKnowledgeBase
               [''https://www.nobelprize.org/uploads/2024/10/advanced-chemistryprize2024.pdf'']
               (PgVector2 (collection_name cfg) (db_url cfg) (HfEmbedder cfg) (embedder_dim cfg))) False,
             NewStorage (PgAssistantStorage (table_name cfg) (db_url cfg))]
            @ (if new_session then []
               else [GetAllRunIds (PgAssistantStorage (table_name cfg) (db_url cfg)) user_id])
            @ [NewAssistant a, CliApp a True])"
  proof -
    let ?T = "snd (main cfg w new_session user_id [])"
    note mc = main_calls [of cfg w new_session user_id]
    have "prefix (steps (calls ?T))
       [SetupDatabase, CreateVectorDb, CreateKnowledgeBase, CreateStorage, ResolveSession, RunCliApp]"
      using mc by (auto simp: steps_def List.map_filter_simps)
    then have a: "prefix (steps ?T)
       [SetupDatabase, CreateVectorDb, CreateKnowledgeBase, CreateStorage, ResolveSession, RunCliApp]"
      by (simp add: steps_calls)
    have b: "CliApp a markdown \<in> set (calls ?T) \<longrightarrow>
          steps (calls ?T) =
            [SetupDatabase, CreateVectorDb, CreateKnowledgeBase, CreateStorage, ResolveSession, RunCliApp]
          \<and> calls ?T =
              [CreateEngine (db_url cfg), Connect,
               Execute ''CREATE EXTENSION IF NOT EXISTS vector'', Commit, Close,
               NewPgVector2 (PgVector2 (collection_name cfg) (db_url cfg) (HfEmbedder cfg) (embedder_dim cfg)),
               NewKnowledgeBase (PDFUrlKnowledgeBase
                 [''https://www.nobelprize.org/uploads/2024/10/advanced-chemistryprize2024.pdf'']
                 (PgVector2 (collection_name cfg) (db_url cfg) (HfEmbedder cfg) (embedder_dim cfg))),
               LoadKnowledgeBase (PDFUrlKnowledgeBase
                 [''https://www.nobelprize.org/uploads/2024/10/advanced-chemistryprize2024.pdf'']
                 (PgVector2 (collection_name cfg) (db_url cfg) (HfEmbedder cfg) (embedder_dim cfg))) False,
               NewStorage (PgAssistantStorage (table_name cfg) (db_url cfg))]
              @ (if new_session then []
                 else [GetAllRunIds (PgAssistantStorage (table_name cfg) (db_url cfg)) user_id])
              @ [NewAssistant a, CliApp a True]"
      using mc by (auto simp: steps_def List.map_filter_simps)
    show ?thesis using a b by (simp add: steps_calls set_calls)
  qed
  have progress: "((\<forall>t. ext_create_engine w t (db_url cfg) = Inr ())
       \<and> (\<forall>t. ext_connect w t = Inr ())
       \<and> (\<forall>t. ext_execute w t ''CREATE EXTENSION IF NOT EXISTS vector'' = Inr ())
       \<and> (\<forall>t. ext_commit w t = Inr ())
       \<and> (\<forall>t. ext_close w t = Inr ())
       \<and> (\<forall>t. ext_PgVector2 w t (PgVector2 (collection_name cfg) (db_url cfg) (HfEmbedder cfg) (embedder_dim cfg)) = Inr ())
       \<and> (\<forall>t. ext_PDFUrlKnowledgeBase w t (PDFUrlKnowledgeBase
              [''https://www.nobelprize.org/uploads/2024/10/advanced-chemistryprize2024.pdf'']
              (PgVector2 (collection_name cfg) (db_url cfg) (HfEmbedder cfg) (embedder_dim cfg))) = Inr ())
       \<and> (\<forall>t. ext_load w t (PDFUrlKnowledgeBase
              [''https://www.nobelprize.org/uploads/2024/10/advanced-chemistryprize2024.pdf'']
              (PgVector2 (collection_name cfg) (db_url cfg) (HfEmbedder cfg) (embedder_dim cfg))) False = Inr ())
       \<and> (\<forall>t. ext_PgAssistantStorage w t (PgAssistantStorage (table_name cfg) (db_url cfg)) = Inr ())
       \<and> (new_session \<or>
            (\<forall>t. \<exists>runs. ext_get_all_run_ids w t (PgAssistantStorage (table_name cfg) (db_url cfg)) user_id = Inr runs))
       \<and> (\<forall>t a. \<exists>r. ext_Assistant w t a = Inr r)
       \<and> (\<forall>t a. ext_cli_app w t a True = Inr ())
       \<longrightarrow>
       fst (main cfg w new_session user_id []) = Return ()
       \<and> steps (snd (main cfg w new_session user_id [])) =
           [SetupDatabase, CreateVectorDb, CreateKnowledgeBase, CreateStorage, ResolveSession, RunCliApp]
       \<and> (\<exists>run_id. last (snd (main cfg w new_session user_id [])) =
             CliApp (Assistant run_id user_id
               (PDFUrlKnowledgeBase
              [''https://www.nobelprize.org/uploads/2024/10/advanced-chemistryprize2024.pdf'']
              (PgVector2 (collection_name cfg) (db_url cfg) (HfEmbedder cfg) (embedder_dim cfg)))
               (PgAssistantStorage (table_name cfg) (db_url cfg)) [] True True) True))"
    using main_reaches_cli_app [of w cfg new_session user_id] by blast
  show ?thesis
    by (rule conjI [OF conjunct1 [OF order] conjI [OF conjunct2 [OF order] progress]])
qed

text \<open>
  In the sample world, resuming and with a new session, \<^verbatim>\<open>main\<close> returns after the six
  steps; the library calls of the resuming run are listed.
\<close>
theorem main_step_order_witness:
  "fst (main (config Map.empty Map.empty) example_world False ''default_user'' []) = Return ()
   \<and> steps (snd (main (config Map.empty Map.empty) example_world False ''default_user'' [])) =
       [SetupDatabase, CreateVectorDb, CreateKnowledgeBase, CreateStorage, ResolveSession, RunCliApp]
   \<and> fst (main (config Map.empty Map.empty) example_world True ''default_user'' []) = Return ()
   \<and> steps (snd (main (config Map.empty Map.empty) example_world True ''default_user'' [])) =
       [SetupDatabase, CreateVectorDb, CreateKnowledgeBase, CreateStorage, ResolveSession, RunCliApp]
   \<and> calls (snd (main (config Map.empty Map.empty) example_world False ''default_user'' [])) =
       [CreateEngine ''postgresql+psycopg://ai:ai@localhost:5532/ai'', Connect,
        Execute ''CREATE EXTENSION IF NOT EXISTS vector'', Commit, Close,
        NewPgVector2 (PgVector2 ''science_docs'' ''postgresql+psycopg://ai:ai@localhost:5532/ai''
           \<lparr>model_name = ''all-MiniLM-L6-v2'', priv_model = None\<rparr> 384),
        NewKnowledgeBase (PDFUrlKnowledgeBase
           [''https://www.nobelprize.org/uploads/2024/10/advanced-chemistryprize2024.pdf'']
           (PgVector2 ''science_docs'' ''postgresql+psycopg://ai:ai@localhost:5532/ai''
              \<lparr>model_name = ''all-MiniLM-L6-v2'', priv_model = None\<rparr> 384)),
        LoadKnowledgeBase (PDFUrlKnowledgeBase
           [''https://www.nobelprize.org/uploads/2024/10/advanced-chemistryprize2024.pdf'']
           (PgVector2 ''science_docs'' ''postgresql+psycopg://ai:ai@localhost:5532/ai''
              \<lparr>model_name = ''all-MiniLM-L6-v2'', priv_model = None\<rparr> 384)) False,
        NewStorage (PgAssistantStorage ''science_assistant''
           ''postgresql+psycopg://ai:ai@localhost:5532/ai''),
        GetAllRunIds (PgAssistantStorage ''science_assistant''
           ''postgresql+psycopg://ai:ai@localhost:5532/ai'') ''default_user'',
        NewAssistant (Assistant (Some ''run-1'') ''default_user''
           (PDFUrlKnowledgeBase
             [''https://www.nobelprize.org/uploads/2024/10/advanced-chemistryprize2024.pdf'']
             (PgVector2 ''science_docs'' ''postgresql+psycopg://ai:ai@localhost:5532/ai''
                \<lparr>model_name = ''all-MiniLM-L6-v2'', priv_model = None\<rparr> 384))
           (PgAssistantStorage ''science_assistant'' ''postgresql+psycopg://ai:ai@localhost:5532/ai'')
           [] True True),
        CliApp (Assistant (Some ''run-1'') ''default_user''
           (PDFUrlKnowledgeBase
             [''https://www.nobelprize.org/uploads/2024/10/advanced-chemistryprize2024.pdf'']
             (PgVector2 ''science_docs'' ''postgresql+psycopg://ai:ai@localhost:5532/ai''
                \<lparr>model_name = ''all-MiniLM-L6-v2'', priv_model = None\<rparr> 384))
           (PgAssistantStorage ''science_assistant'' ''postgresql+psycopg://ai:ai@localhost:5532/ai'')
           [] True True) True]"
proof -
  let ?cfg = "config Map.empty Map.empty"
  let ?A = "Assistant (Some ''run-1'') ''default_user''
         (PDFUrlKnowledgeBase
           [''https://www.nobelprize.org/uploads/2024/10/advanced-chemistryprize2024.pdf'']
           (PgVector2 ''science_docs'' ''postgresql+psycopg://ai:ai@localhost:5532/ai''
              \<lparr>model_name = ''all-MiniLM-L6-v2'', priv_model = None\<rparr> 384))
         (PgAssistantStorage ''science_assistant'' ''postgresql+psycopg://ai:ai@localhost:5532/ai'')
         [] True True"
  have m: "CliApp ?A True \<in> set (snd (main ?cfg example_world False ''default_user'' []))"
    by (simp add: main_example_resume)
  have f: "fst (main ?cfg example_world False ''default_user'' []) = Return ()
     \<and> steps (snd (main ?cfg example_world False ''default_user'' [])) =
       [SetupDatabase, CreateVectorDb, CreateKnowledgeBase, CreateStorage, ResolveSession, RunCliApp]"
    using main_step_order [of ?cfg example_world False "''default_user''" ?A True]
    by (simp add: example_world_simps)
  have t: "fst (main ?cfg example_world True ''default_user'' []) = Return ()
     \<and> steps (snd (main ?cfg example_world True ''default_user'' [])) =
       [SetupDatabase, CreateVectorDb, CreateKnowledgeBase, CreateStorage, ResolveSession, RunCliApp]"
    using main_step_order [of ?cfg example_world True "''default_user''" ?A True]
    by (simp add: example_world_simps)
  have c: "calls (snd (main ?cfg example_world False ''default_user'' [])) =
       [CreateEngine (db_url ?cfg), Connect,
             Execute ''CREATE EXTENSION IF NOT EXISTS vector'', Commit, Close,
             NewPgVector2 (PgVector2 (collection_name ?cfg) (db_url ?cfg) (HfEmbedder ?cfg) (embedder_dim ?cfg)),
             NewKnowledgeBase (PDFUrlKnowledgeBase
               [''https://www.nobelprize.org/uploads/2024/10/advanced-chemistryprize2024.pdf'']
               (PgVector2 (collection_name ?cfg) (db_url ?cfg) (HfEmbedder ?cfg) (embedder_dim ?cfg))),
             LoadKnowledgeBase (PDFUrlKnowledgeBase
               [''https://www.nobelprize.org/uploads/2024/10/advanced-chemistryprize2024.pdf'']
               (PgVector2 (collection_name ?cfg) (db_url ?cfg) (HfEmbedder ?cfg) (embedder_dim ?cfg))) False,
             NewStorage (PgAssistantStorage (table_name ?cfg) (db_url ?cfg))]
            @ (if False then []
               else [GetAllRunIds (PgAssistantStorage (table_name ?cfg) (db_url ?cfg)) ''default_user''])
            @ [NewAssistant ?A, CliApp ?A True]"
    using main_step_order [of ?cfg example_world False "''default_user''" ?A True] m
    by blast
  have c': "calls (snd (main ?cfg example_world False ''default_user'' [])) =
       [CreateEngine ''postgresql+psycopg://ai:ai@localhost:5532/ai'', Connect,
        Execute ''CREATE EXTENSION IF NOT EXISTS vector'', Commit, Close,
        NewPgVector2 (PgVector2 ''science_docs'' ''postgresql+psycopg://ai:ai@localhost:5532/ai''
           \<lparr>model_name = ''all-MiniLM-L6-v2'', priv_model = None\<rparr> 384),
        NewKnowledgeBase (PDFUrlKnowledgeBase
           [''https://www.nobelprize.org/uploads/2024/10/advanced-chemistryprize2024.pdf'']
           (PgVector2 ''science_docs'' ''postgresql+psycopg://ai:ai@localhost:5532/ai''
              \<lparr>model_name = ''all-MiniLM-L6-v2'', priv_model = None\<rparr> 384)),
        LoadKnowledgeBase (PDFUrlKnowledgeBase
           [''https://www.nobelprize.org/uploads/2024/10/advanced-chemistryprize2024.pdf'']
           (PgVector2 ''science_docs'' ''postgresql+psycopg://ai:ai@localhost:5532/ai''
              \<lparr>model_name = ''all-MiniLM-L6-v2'', priv_model = None\<rparr> 384)) False,
        NewStorage (PgAssistantStorage ''science_assistant''
           ''postgresql+psycopg://ai:ai@localhost:5532/ai''),
        GetAllRunIds (PgAssistantStorage ''science_assistant''
           ''postgresql+psycopg://ai:ai@localhost:5532/ai'') ''default_user'',
        NewAssistant ?A, CliApp ?A True]"
    using c by (simp add: cfg_defs)
  show ?thesis
    by (rule conjI, rule conjunct1 [OF f], rule conjI, rule conjunct2 [OF f],
        rule conjI, rule conjunct1 [OF t], rule conjI, rule conjunct2 [OF t], rule c')
qed

text \<open>
  Claim C6. The defaults of the configuration record: \<^verbatim>\<open>AppConfig()\<close> is exactly the five
  default values, it is the \<^verbatim>\<open>config\<close> of the program, each field has its default whenever
  no argument is given for it, and the adapter's \<^verbatim>\<open>model_name\<close> is the default model. The
  settings of \<^verbatim>\<open>config.py\<close>, where the module loads (pydantic 1), have the same defaults: all
  of them with nothing set, and each one whenever no variable of its name, in any
  spelling, is set in the environment or in the \<^verbatim>\<open>.env\<close> file.
\<close>
theorem config_defaults:
  "AppConfig None None None None None =
     \<lparr> db_url = ''postgresql+psycopg://ai:ai@localhost:5532/ai'',
       collection_name = ''science_docs'',
       embedder_model = ''all-MiniLM-L6-v2'',
       embedder_dim = 384,
       table_name = ''science_assistant'' \<rparr>
   \<and> config environ dotenv_file = AppConfig None None None None None
   \<and> db_url (AppConfig None cn em ed tn) = ''postgresql+psycopg://ai:ai@localhost:5532/ai''
   \<and> collection_name (AppConfig du None em ed tn) = ''science_docs''
   \<and> embedder_model (AppConfig du cn None ed tn) = ''all-MiniLM-L6-v2''
   \<and> embedder_dim (AppConfig du cn em None tn) = 384
   \<and> table_name (AppConfig du cn em ed None) = ''science_assistant''
   \<and> model_name (HfEmbedder (config environ dotenv_file)) = ''all-MiniLM-L6-v2''
   \<and> config_py PydanticV1 int_validator [] [] =
       Inr \<lparr> DB_URL = ''postgresql+psycopg://ai:ai@localhost:5532/ai'',
             EMBEDDER_MODEL = ''all-MiniLM-L6-v2'', EMBEDDING_DIM = 384,
             COLLECTION_NAME = ''science_docs'', TABLE_NAME = ''science_assistant'' \<rparr>
   \<and> (config_py PydanticV1 int_validator env_vars dotenv_vars = Inr s \<longrightarrow>
        (env_value env_vars dotenv_vars ''DB_URL'' = None \<longrightarrow>
           DB_URL s = ''postgresql+psycopg://ai:ai@localhost:5532/ai'')
        \<and> (env_value env_vars dotenv_vars ''EMBEDDER_MODEL'' = None \<longrightarrow>
           EMBEDDER_MODEL s = ''all-MiniLM-L6-v2'')
        \<and> (env_value env_vars dotenv_vars ''EMBEDDING_DIM'' = None \<longrightarrow> EMBEDDING_DIM s = 384)
        \<and> (env_value env_vars dotenv_vars ''COLLECTION_NAME'' = None \<longrightarrow>
           COLLECTION_NAME s = ''science_docs'')
        \<and> (env_value env_vars dotenv_vars ''TABLE_NAME'' = None \<longrightarrow>
           TABLE_NAME s = ''science_assistant''))"
proof -
  have app: "AppConfig None None None None None =
     \<lparr> db_url = ''postgresql+psycopg://ai:ai@localhost:5532/ai'',
       collection_name = ''science_docs'',
       embedder_model = ''all-MiniLM-L6-v2'',
       embedder_dim = 384,
       table_name = ''science_assistant'' \<rparr>"
    by (simp add: AppConfig_def)
  have cfg: "config environ dotenv_file = AppConfig None None None None None"
    by (simp add: config_def Let_def)
  have fields: "db_url (AppConfig None cn em ed tn) = ''postgresql+psycopg://ai:ai@localhost:5532/ai''"
    "collection_name (AppConfig du None em ed tn) = ''science_docs''"
    "embedder_model (AppConfig du cn None ed tn) = ''all-MiniLM-L6-v2''"
    "embedder_dim (AppConfig du cn em None tn) = 384"
    "table_name (AppConfig du cn em ed None) = ''science_assistant''"
    by (simp_all add: AppConfig_def)
  have emb: "model_name (HfEmbedder (config environ dotenv_file)) = ''all-MiniLM-L6-v2''"
    by (simp add: HfEmbedder_def cfg app)
  have empty: "config_py PydanticV1 int_validator [] [] =
       Inr \<lparr> DB_URL = ''postgresql+psycopg://ai:ai@localhost:5532/ai'',
             EMBEDDER_MODEL = ''all-MiniLM-L6-v2'', EMBEDDING_DIM = 384,
             COLLECTION_NAME = ''science_docs'', TABLE_NAME = ''science_assistant'' \<rparr>"
    by (simp add: config_py_def Settings_def env_value_empty Let_def)
  have sett: "config_py PydanticV1 int_validator env_vars dotenv_vars = Inr s \<longrightarrow>
        (env_value env_vars dotenv_vars ''DB_URL'' = None \<longrightarrow>
           DB_URL s = ''postgresql+psycopg://ai:ai@localhost:5532/ai'')
        \<and> (env_value env_vars dotenv_vars ''EMBEDDER_MODEL'' = None \<longrightarrow>
           EMBEDDER_MODEL s = ''all-MiniLM-L6-v2'')
        \<and> (env_value env_vars dotenv_vars ''EMBEDDING_DIM'' = None \<longrightarrow> EMBEDDING_DIM s = 384)
        \<and> (env_value env_vars dotenv_vars ''COLLECTION_NAME'' = None \<longrightarrow>
           COLLECTION_NAME s = ''science_docs'')
        \<and> (env_value env_vars dotenv_vars ''TABLE_NAME'' = None \<longrightarrow>
           TABLE_NAME s = ''science_assistant'')"
  proof
    assume "config_py PydanticV1 int_validator env_vars dotenv_vars = Inr s"
    then have "Settings int_validator env_vars dotenv_vars = Inr s"
      by (simp add: config_py_def)
    from Settings_Inr [OF this] obtain d where
      d: "(case env_value env_vars dotenv_vars ''EMBEDDING_DIM'' of
                None \<Rightarrow> Some 384 | Some v \<Rightarrow> int_validator v) = Some d"
      and s: "s = \<lparr> DB_URL = (case env_value env_vars dotenv_vars ''DB_URL'' of
                               None \<Rightarrow> ''postgresql+psycopg://ai:ai@localhost:5532/ai'' | Some v \<Rightarrow> v),
                   EMBEDDER_MODEL = (case env_value env_vars dotenv_vars ''EMBEDDER_MODEL'' of
                               None \<Rightarrow> ''all-MiniLM-L6-v2'' | Some v \<Rightarrow> v),
                   EMBEDDING_DIM = d,
                   COLLECTION_NAME = (case env_value env_vars dotenv_vars ''COLLECTION_NAME'' of
                               None \<Rightarrow> ''science_docs'' | Some v \<Rightarrow> v),
                   TABLE_NAME = (case env_value env_vars dotenv_vars ''TABLE_NAME'' of
                               None \<Rightarrow> ''science_assistant'' | Some v \<Rightarrow> v) \<rparr>"
      by blast
    have "env_value env_vars dotenv_vars ''EMBEDDING_DIM'' = None \<longrightarrow> d = 384"
      using d by auto
    then show "(env_value env_vars dotenv_vars ''DB_URL'' = None \<longrightarrow>
           DB_URL s = ''postgresql+psycopg://ai:ai@localhost:5532/ai'')
        \<and> (env_value env_vars dotenv_vars ''EMBEDDER_MODEL'' = None \<longrightarrow>
           EMBEDDER_MODEL s = ''all-MiniLM-L6-v2'')
        \<and> (env_value env_vars dotenv_vars ''EMBEDDING_DIM'' = None \<longrightarrow> EMBEDDING_DIM s = 384)
        \<and> (env_value env_vars dotenv_vars ''COLLECTION_NAME'' = None \<longrightarrow>
           COLLECTION_NAME s = ''science_docs'')
        \<and> (env_value env_vars dotenv_vars ''TABLE_NAME'' = None \<longrightarrow>
           TABLE_NAME s = ''science_assistant'')"
      by (simp add: s)
  qed
  show ?thesis
    using app cfg fields emb empty sett by blast
qed

text \<open>
  With nothing set the settings hold the five defaults; with only \<^verbatim>\<open>db_url\<close> set in the
  environment the database URL is the one given and the table name is still the default.
\<close>
theorem config_defaults_witness:
  "config_py PydanticV1 (\<lambda>v. None) [] [] =
       Inr \<lparr> DB_URL = ''postgresql+psycopg://ai:ai@localhost:5532/ai'',
             EMBEDDER_MODEL = ''all-MiniLM-L6-v2'', EMBEDDING_DIM = 384,
             COLLECTION_NAME = ''science_docs'', TABLE_NAME = ''science_assistant'' \<rparr>
   \<and> env_value [] [] ''DB_URL'' = None
   \<and> env_value [] [] ''EMBEDDER_MODEL'' = None
   \<and> env_value [] [] ''EMBEDDING_DIM'' = None
   \<and> env_value [] [] ''COLLECTION_NAME'' = None
   \<and> env_value [] [] ''TABLE_NAME'' = None
   \<and> embedder_dim (config Map.empty Map.empty) = 384
   \<and> config_py PydanticV1 (\<lambda>v. None)
        [(''db_url'', ''postgresql+psycopg://kb:kb@db.internal:5432/kb'')] [] =
       Inr \<lparr> DB_URL = ''postgresql+psycopg://kb:kb@db.internal:5432/kb'',
             EMBEDDER_MODEL = ''all-MiniLM-L6-v2'', EMBEDDING_DIM = 384,
             COLLECTION_NAME = ''science_docs'', TABLE_NAME = ''science_assistant'' \<rparr>
   \<and> env_value [(''db_url'', ''postgresql+psycopg://kb:kb@db.internal:5432/kb'')] [] ''TABLE_NAME''
       = None"
proof -
  let ?d = "\<lparr> DB_URL = ''postgresql+psycopg://ai:ai@localhost:5532/ai'',
             EMBEDDER_MODEL = ''all-MiniLM-L6-v2'', EMBEDDING_DIM = 384,
             COLLECTION_NAME = ''science_docs'', TABLE_NAME = ''science_assistant'' \<rparr>"
  let ?k = "\<lparr> DB_URL = ''postgresql+psycopg://kb:kb@db.internal:5432/kb'',
             EMBEDDER_MODEL = ''all-MiniLM-L6-v2'', EMBEDDING_DIM = 384,
             COLLECTION_NAME = ''science_docs'', TABLE_NAME = ''science_assistant'' \<rparr>"
  let ?env = "[(''db_url'', ''postgresql+psycopg://kb:kb@db.internal:5432/kb'')]"
  have 1: "config_py PydanticV1 (\<lambda>v. None) [] [] = Inr ?d"
    and 7: "embedder_dim (config Map.empty Map.empty) = 384"
    using config_defaults [of "Map.empty" "Map.empty" None None None None None "\<lambda>v. None" "[]" "[]" ?d]
    by simp_all
  have 8: "config_py PydanticV1 (\<lambda>v. None) ?env [] = Inr ?k"
    by (simp add: config_py_def Settings_def env_value_only_db_url Let_def)
  have 9: "env_value ?env [] ''TABLE_NAME'' = None"
    by (rule env_value_only_db_url)
  have 10: "TABLE_NAME ?k = ''science_assistant''"
    using config_defaults [of "Map.empty" "Map.empty" None None None None None "\<lambda>v. None" ?env "[]" ?k] 8 9
    by blast
  show ?thesis
    using 1 7 8 9 10 by (simp add: env_value_empty)
qed

text \<open>
  Claim C7. The property \<^verbatim>\<open>model\<close> memoizes. A first access on an adapter with no model
  loads the \<^verbatim>\<open>SentenceTransformer\<close> for \<^verbatim>\<open>model_name\<close> and stores it. After any access that
  returned a handle, the handle is stored, and every later access, whatever the outside
  world would then answer and whatever happened in between, returns that same handle,
  leaves the adapter unchanged and adds nothing to the trace (no reload, no log line).
\<close>
theorem model_memoized:
  "(priv_model self = None \<and>
    ext_SentenceTransformer w (t @ [Log INFO (''Loading embedding model: '' @ model_name self)])
       (model_name self) = Inr m \<longrightarrow>
      model w self t =
        (Return m, self\<lparr>priv_model := Some m\<rparr>,
         t @ [Log INFO (''Loading embedding model: '' @ model_name self), LoadModel (model_name self)]))
   \<and> (model w self t = (Return m, self1, t1) \<longrightarrow>
        priv_model self1 = Some m \<and> (\<forall>w' t'. model w' self1 t' = (Return m, self1, t')))"
  by (auto simp: model_def Let_def split: option.splits sum.splits)

text \<open>
  In the sample world a reload would give another handle (it depends on the length of the
  trace); the second access returns the stored one.
\<close>
theorem model_memoized_witness:
  "priv_model (HfEmbedder (config Map.empty Map.empty)) = None
   \<and> model example_world (HfEmbedder (config Map.empty Map.empty)) [] =
       (Return (ModelHandle 1),
        \<lparr>model_name = ''all-MiniLM-L6-v2'', priv_model = Some (ModelHandle 1)\<rparr>,
        [Log INFO ''Loading embedding model: all-MiniLM-L6-v2'', LoadModel ''all-MiniLM-L6-v2''])
   \<and> model example_world
         \<lparr>model_name = ''all-MiniLM-L6-v2'', priv_model = Some (ModelHandle 1)\<rparr>
         [Log INFO ''Loading embedding model: all-MiniLM-L6-v2'', LoadModel ''all-MiniLM-L6-v2''] =
       (Return (ModelHandle 1),
        \<lparr>model_name = ''all-MiniLM-L6-v2'', priv_model = Some (ModelHandle 1)\<rparr>,
        [Log INFO ''Loading embedding model: all-MiniLM-L6-v2'', LoadModel ''all-MiniLM-L6-v2''])"
  using model_memoized [of "HfEmbedder (config Map.empty Map.empty)" example_world "[]" "ModelHandle 1"
              "\<lparr>model_name = ''all-MiniLM-L6-v2'', priv_model = Some (ModelHandle 1)\<rparr>"
              "[Log INFO ''Loading embedding model: all-MiniLM-L6-v2'', LoadModel ''all-MiniLM-L6-v2'']"]
  by (simp add: cfg_defs example_world_def)

text \<open>
  Claim C8 says that any exception raised during embedding generation is logged before
  it is re-raised. A \<^verbatim>\<open>KeyboardInterrupt\<close> raised by \<^verbatim>\<open>encode\<close> is not an \<^verbatim>\<open>Exception\<close>: it passes
  the \<^verbatim>\<open>except Exception\<close> clause and leaves the function with no error line in the trace.
\<close>
theorem embedding_failure_unlogged_counterexample:
  "get_embedding_and_usage (config Map.empty Map.empty)
      (example_world\<lparr>ext_encode := (\<lambda>t m text. Inl (Exn NonException ''KeyboardInterrupt''))\<rparr>)
      (HfEmbedder (config Map.empty Map.empty)) ''hello'' [] =
     (Raise (Exn NonException ''KeyboardInterrupt''),
      \<lparr>model_name = ''all-MiniLM-L6-v2'', priv_model = Some (ModelHandle 1)\<rparr>,
      [Log INFO ''Loading embedding model: all-MiniLM-L6-v2'', LoadModel ''all-MiniLM-L6-v2'',
       Encode (ModelHandle 1) ''hello''])
   \<and> Log ERROR ''Embedding generation failed: KeyboardInterrupt''
       \<notin> set (snd (snd (get_embedding_and_usage (config Map.empty Map.empty)
            (example_world\<lparr>ext_encode := (\<lambda>t m text. Inl (Exn NonException ''KeyboardInterrupt''))\<rparr>)
            (HfEmbedder (config Map.empty Map.empty)) ''hello'' [])))"
  by (simp add: get_embedding_and_usage_def get_embedding_and_usage_try_def model_def
                cfg_defs example_world_simps)

text \<open>
  Claim C8, amended. Whatever fails during embedding generation, the exception leaves
  \<^verbatim>\<open>get_embedding_and_usage\<close> unchanged, and it is logged ("Embedding generation failed: ...")
  before that exactly when it is an \<^verbatim>\<open>Exception\<close>: so for a model that fails to load, for an
  \<^verbatim>\<open>encode\<close> that raises, and for the \<^verbatim>\<open>ValueError\<close> of a wrong dimension, which is always
  logged. A result is returned only when the model was obtained, \<^verbatim>\<open>encode\<close> returned and the
  length was right, and it is that embedding. The function never exits the process.
\<close>
theorem embedding_failure_reraised:
  "(priv_model self = None \<and>
    ext_SentenceTransformer w (t @ [Log INFO (''Loading embedding model: '' @ model_name self)])
       (model_name self) = Inl e \<longrightarrow>
      get_embedding_and_usage cfg w self text t =
        (Raise e, self,
         t @ [Log INFO (''Loading embedding model: '' @ model_name self), LoadModel (model_name self)]
           @ (if is_Exception e then [Log ERROR (''Embedding generation failed: '' @ str e)] else [])))
   \<and> (model w self t = (Return m, self1, t1) \<and> ext_encode w t1 m text = Inl e \<longrightarrow>
      get_embedding_and_usage cfg w self text t =
        (Raise e, self1,
         t1 @ [Encode m text]
            @ (if is_Exception e then [Log ERROR (''Embedding generation failed: '' @ str e)] else [])))
   \<and> (model w self t = (Return m, self1, t1) \<and> ext_encode w t1 m text = Inr embedding \<and>
       int (length embedding) \<noteq> embedder_dim cfg \<longrightarrow>
      fst (get_embedding_and_usage cfg w self text t) =
        Raise (Exn ValueError ''Embedding dimension mismatch'')
      \<and> last (snd (snd (get_embedding_and_usage cfg w self text t))) =
        Log ERROR ''Embedding generation failed: Embedding dimension mismatch'')
   \<and> (fst (get_embedding_and_usage cfg w self text t) = Return v \<longrightarrow>
        (\<exists>m' self' t'. model w self t = (Return m', self', t') \<and>
           ext_encode w t' m' text = Inr (fst v) \<and> int (length (fst v)) = embedder_dim cfg))
   \<and> fst (get_embedding_and_usage cfg w self text t) \<noteq> Exit c"
proof -
  have load: "priv_model self = None \<and>
    ext_SentenceTransformer w (t @ [Log INFO (''Loading embedding model: '' @ model_name self)])
       (model_name self) = Inl e \<longrightarrow>
      get_embedding_and_usage cfg w self text t =
        (Raise e, self,
         t @ [Log INFO (''Loading embedding model: '' @ model_name self), LoadModel (model_name self)]
           @ (if is_Exception e then [Log ERROR (''Embedding generation failed: '' @ str e)] else []))"
    by (simp add: get_embedding_and_usage_def get_embedding_and_usage_try_def model_def Let_def)
  have enc: "model w self t = (Return m, self1, t1) \<and> ext_encode w t1 m text = Inl e \<longrightarrow>
      get_embedding_and_usage cfg w self text t =
        (Raise e, self1,
         t1 @ [Encode m text]
            @ (if is_Exception e then [Log ERROR (''Embedding generation failed: '' @ str e)] else []))"
    by (simp add: get_embedding_and_usage_def get_embedding_and_usage_try_def Let_def)
  have dim: "model w self t = (Return m, self1, t1) \<and> ext_encode w t1 m text = Inr embedding \<and>
       int (length embedding) \<noteq> embedder_dim cfg \<longrightarrow>
      fst (get_embedding_and_usage cfg w self text t) =
        Raise (Exn ValueError ''Embedding dimension mismatch'')
      \<and> last (snd (snd (get_embedding_and_usage cfg w self text t))) =
        Log ERROR ''Embedding generation failed: Embedding dimension mismatch''"
    by (simp add: get_embedding_and_usage_def get_embedding_and_usage_try_def Let_def)
  have ret: "fst (get_embedding_and_usage cfg w self text t) = Return v \<longrightarrow>
        (\<exists>m' self' t'. model w self t = (Return m', self', t') \<and>
           ext_encode w t' m' text = Inr (fst v) \<and> int (length (fst v)) = embedder_dim cfg)"
    by (auto simp: get_embedding_and_usage_def get_embedding_and_usage_try_def Let_def
             split: prod.splits outcome.splits sum.splits if_splits)
  have ex: "fst (get_embedding_and_usage cfg w self text t) \<noteq> Exit c"
    by (auto simp: get_embedding_and_usage_def get_embedding_and_usage_try_def Let_def
                   model_never_exits
             split: prod.splits outcome.splits sum.splits if_splits)
  show ?thesis using load enc dim ret ex by blast
qed

text \<open>
  A failing \<^verbatim>\<open>encode\<close> and a failing model load, each logged and re-raised as it was; a
  wrong dimension raising; and a returned result, behind which \<^verbatim>\<open>encode\<close> did return.
\<close>
theorem embedding_failure_reraised_witness:
  "get_embedding_and_usage (config Map.empty Map.empty)
      (example_world\<lparr>ext_encode := (\<lambda>t m text. Inl (Exn OtherException ''out of memory''))\<rparr>)
      (HfEmbedder (config Map.empty Map.empty)) ''hello'' [] =
     (Raise (Exn OtherException ''out of memory''),
      \<lparr>model_name = ''all-MiniLM-L6-v2'', priv_model = Some (ModelHandle 1)\<rparr>,
      [Log INFO ''Loading embedding model: all-MiniLM-L6-v2'', LoadModel ''all-MiniLM-L6-v2'',
       Encode (ModelHandle 1) ''hello'',
       Log ERROR ''Embedding generation failed: out of memory''])
   \<and> get_embedding_and_usage (config Map.empty Map.empty)
      (example_world\<lparr>ext_SentenceTransformer := (\<lambda>t name. Inl (Exn OtherException ''no such model''))\<rparr>)
      (HfEmbedder (config Map.empty Map.empty)) ''hello'' [] =
     (Raise (Exn OtherException ''no such model''),
      \<lparr>model_name = ''all-MiniLM-L6-v2'', priv_model = None\<rparr>,
      [Log INFO ''Loading embedding model: all-MiniLM-L6-v2'', LoadModel ''all-MiniLM-L6-v2'',
       Log ERROR ''Embedding generation failed: no such model''])
   \<and> fst (get_embedding_and_usage (config Map.empty Map.empty)
      (example_world\<lparr>ext_encode := (\<lambda>t m text. Inr [1, 2, 3])\<rparr>)
      (HfEmbedder (config Map.empty Map.empty)) ''hello'' []) =
     Raise (Exn ValueError ''Embedding dimension mismatch'')
   \<and> fst (get_embedding_and_usage (config Map.empty Map.empty) example_world
      (HfEmbedder (config Map.empty Map.empty)) ''hello'' [])
      = Return (replicate 384 0, PDict [(''model'', PStr ''all-MiniLM-L6-v2''),
                      (''usage'', PDict [(''total_tokens'', PInt 0)])])
   \<and> ext_encode example_world
        [Log INFO ''Loading embedding model: all-MiniLM-L6-v2'', LoadModel ''all-MiniLM-L6-v2'']
        (ModelHandle 1) ''hello'' = Inr (replicate 384 0)"
proof -
  let ?cfg = "config Map.empty Map.empty"
  let ?self = "HfEmbedder ?cfg"
  let ?self1 = "\<lparr>model_name = ''all-MiniLM-L6-v2'', priv_model = Some (ModelHandle 1)\<rparr>"
  let ?t1 = "[Log INFO ''Loading embedding model: all-MiniLM-L6-v2'', LoadModel ''all-MiniLM-L6-v2'']"
  let ?wenc = "example_world\<lparr>ext_encode := (\<lambda>t m text. Inl (Exn OtherException ''out of memory''))\<rparr>"
  let ?wload = "example_world\<lparr>ext_SentenceTransformer :=
                  (\<lambda>t name. Inl (Exn OtherException ''no such model''))\<rparr>"
  let ?wdim = "example_world\<lparr>ext_encode := (\<lambda>t m text. Inr [1, 2, 3])\<rparr>"
  let ?usage = "PDict [(''model'', PStr ''all-MiniLM-L6-v2''),
                      (''usage'', PDict [(''total_tokens'', PInt 0)])]"
  have m_enc: "model ?wenc ?self [] = (Return (ModelHandle 1), ?self1, ?t1)"
    by (simp add: model_def cfg_defs example_world_simps)
  have e_enc: "ext_encode ?wenc ?t1 (ModelHandle 1) ''hello'' = Inl (Exn OtherException ''out of memory'')"
    by simp
  have a: "get_embedding_and_usage ?cfg ?wenc ?self ''hello'' [] =
     (Raise (Exn OtherException ''out of memory''), ?self1,
      ?t1 @ [Encode (ModelHandle 1) ''hello'']
        @ [Log ERROR ''Embedding generation failed: out of memory''])"
    using embedding_failure_reraised [of ?self ?wenc "[]" "Exn OtherException ''out of memory''" ?cfg "''hello''"
                 "ModelHandle 1" ?self1 ?t1 "[]" "([], ?usage)" 0] m_enc e_enc
    by simp
  have p_load: "priv_model ?self = None"
    by (simp add: cfg_defs)
  have s_load: "ext_SentenceTransformer ?wload
       ([] @ [Log INFO (''Loading embedding model: '' @ model_name ?self)]) (model_name ?self)
       = Inl (Exn OtherException ''no such model'')"
    by simp
  have b: "get_embedding_and_usage ?cfg ?wload ?self ''hello'' [] =
     (Raise (Exn OtherException ''no such model''), ?self,
      [] @ [Log INFO (''Loading embedding model: '' @ model_name ?self), LoadModel (model_name ?self)]
        @ [Log ERROR ''Embedding generation failed: no such model''])"
    using embedding_failure_reraised [of ?self ?wload "[]" "Exn OtherException ''no such model''" ?cfg "''hello''"
                 "ModelHandle 1" ?self1 ?t1 "[]" "([], ?usage)" 0] p_load s_load
    by simp
  have m_dim: "model ?wdim ?self [] = (Return (ModelHandle 1), ?self1, ?t1)"
    by (simp add: model_def cfg_defs example_world_simps)
  have e_dim: "ext_encode ?wdim ?t1 (ModelHandle 1) ''hello'' = Inr [1, 2, 3]"
    by simp
  have l_dim: "int (length [1 :: real, 2, 3]) \<noteq> embedder_dim ?cfg"
    by (simp add: cfg_defs)
  have c: "fst (get_embedding_and_usage ?cfg ?wdim ?self ''hello'' []) =
       Raise (Exn ValueError ''Embedding dimension mismatch'')"
    using embedding_failure_reraised [of ?self ?wdim "[]" "Exn OtherException ''x''" ?cfg "''hello''"
                 "ModelHandle 1" ?self1 ?t1 "[1, 2, 3]" "([], ?usage)" 0] m_dim e_dim l_dim
    by blast
  have r: "fst (get_embedding_and_usage ?cfg example_world ?self ''hello'' [])
      = Return (replicate 384 0, ?usage)"
    by (simp add: get_embedding_and_usage_def get_embedding_and_usage_try_def model_def
                  cfg_defs example_world_simps)
  have m_ok: "model example_world ?self [] = (Return (ModelHandle 1), ?self1, ?t1)"
    by (simp add: model_def cfg_defs example_world_simps)
  have d: "ext_encode example_world ?t1 (ModelHandle 1) ''hello'' = Inr (replicate 384 0)"
    using embedding_failure_reraised [of ?self example_world "[]" "Exn OtherException ''x''" ?cfg "''hello''"
                 "ModelHandle 1" ?self1 ?t1 "[]" "(replicate 384 0, ?usage)" 0] r m_ok
    by simp
  have a': "get_embedding_and_usage ?cfg ?wenc ?self ''hello'' [] =
     (Raise (Exn OtherException ''out of memory''), ?self1,
      [Log INFO ''Loading embedding model: all-MiniLM-L6-v2'', LoadModel ''all-MiniLM-L6-v2'',
       Encode (ModelHandle 1) ''hello'',
       Log ERROR ''Embedding generation failed: out of memory''])"
    using a by simp
  have b': "get_embedding_and_usage ?cfg ?wload ?self ''hello'' [] =
     (Raise (Exn OtherException ''no such model''),
      \<lparr>model_name = ''all-MiniLM-L6-v2'', priv_model = None\<rparr>,
      [Log INFO ''Loading embedding model: all-MiniLM-L6-v2'', LoadModel ''all-MiniLM-L6-v2'',
       Log ERROR ''Embedding generation failed: no such model''])"
    using b by (simp add: cfg_defs)
  show ?thesis
    by (rule conjI, rule a', rule conjI, rule b', rule conjI, rule c, rule conjI, rule r, rule d)
qed

text \<open>
  Claim C9. \<^verbatim>\<open>setup_database\<close> makes its database calls as one scoped sequence. In every
  world the calls it adds are the engine creation followed by at most one \<^verbatim>\<open>connect\<close>, at
  most one statement, which is \<^verbatim>\<open>CREATE EXTENSION IF NOT EXISTS vector\<close>, at most one commit,
  and a \<^verbatim>\<open>close\<close> whenever the block of the connection was entered; a failing call cuts the
  sequence short and nothing else is ever executed. When the function returns normally,
  what it added is exactly: a log line, the engine, connect, the statement, commit, close,
  a log line.
\<close>
theorem setup_database_single_sequence:
  "\<exists>new. snd (setup_database cfg w t) = t @ new \<and>
     calls new \<in> set [
       [CreateEngine (db_url cfg)],
       [CreateEngine (db_url cfg), Connect],
       [CreateEngine (db_url cfg), Connect, Execute ''CREATE EXTENSION IF NOT EXISTS vector'', Close],
       [CreateEngine (db_url cfg), Connect, Execute ''CREATE EXTENSION IF NOT EXISTS vector'',
        Commit, Close]] \<and>
     (fst (setup_database cfg w t) = Return () \<longrightarrow>
        new = [Log INFO ''Initializing database connection'',
               CreateEngine (db_url cfg), Connect,
               Execute ''CREATE EXTENSION IF NOT EXISTS vector'', Commit, Close,
               Log INFO ''Database extension setup completed''])"
  by (simp add: setup_database_def setup_database_try_def prog_defs calls_def split: sum.splits)

text \<open>
  In the sample world the whole sequence runs, once.
\<close>
theorem setup_database_single_sequence_witness:
  "fst (setup_database (config Map.empty Map.empty) example_world []) = Return ()
   \<and> snd (setup_database (config Map.empty Map.empty) example_world []) =
       [Log INFO ''Initializing database connection'',
        CreateEngine ''postgresql+psycopg://ai:ai@localhost:5532/ai'', Connect,
        Execute ''CREATE EXTENSION IF NOT EXISTS vector'', Commit, Close,
        Log INFO ''Database extension setup completed'']"
proof -
  have r: "fst (setup_database (config Map.empty Map.empty) example_world []) = Return ()"
    by (simp add: setup_database_def setup_database_try_def prog_defs example_world_simps)
  have u: "db_url (config Map.empty Map.empty) = ''postgresql+psycopg://ai:ai@localhost:5532/ai''"
    by (simp add: cfg_defs)
  show ?thesis
    using setup_database_single_sequence [of "config Map.empty Map.empty" example_world "[]"] r u by auto
qed

text \<open>
  Claim C10. Whenever \<^verbatim>\<open>get_embedding_and_usage\<close> returns, the second component of the pair
  is the dictionary \<^verbatim>\<open>{"model": model_name, "usage": {"total_tokens": 0}}\<close>, whatever the text
  and the embedding.
\<close>
theorem usage_total_tokens_zero:
  "fst (get_embedding_and_usage cfg w self text t) = Return (embedding, usage) \<Longrightarrow>
     usage = PDict [(''model'', PStr (model_name self)),
                    (''usage'', PDict [(''total_tokens'', PInt 0)])]"
  by (auto simp: get_embedding_and_usage_def get_embedding_and_usage_try_def Let_def
           split: prod.splits outcome.splits sum.splits if_splits
           dest: model_name_preserved)

text \<open>A successful call in the sample world, with its usage dictionary.\<close>
theorem usage_total_tokens_zero_witness:
  "fst (get_embedding_and_usage (config Map.empty Map.empty) example_world
          (HfEmbedder (config Map.empty Map.empty)) ''hello'' [])
     = Return (replicate 384 0,
               PDict [(''model'', PStr ''all-MiniLM-L6-v2''),
                      (''usage'', PDict [(''total_tokens'', PInt 0)])])"
proof -
  have r: "fst (get_embedding_and_usage (config Map.empty Map.empty) example_world
          (HfEmbedder (config Map.empty Map.empty)) ''hello'' [])
     = Return (replicate 384 0,
               PDict [(''model'', PStr (model_name (HfEmbedder (config Map.empty Map.empty)))),
                      (''usage'', PDict [(''total_tokens'', PInt 0)])])"
    by (simp add: cfg_defs example_world_def get_embedding_and_usage_def
                  get_embedding_and_usage_try_def model_def)
  show ?thesis
    using usage_total_tokens_zero [OF r] r by (simp add: cfg_defs)
qed

end
